theory Spec2Isabelle
  imports Complex_Main "HOL-Library.AList" "HOL-Library.Char_ord" "HOL-Library.List_Lexorder"
    "HOL-Library.Multiset"
    "HOL-Library.Product_Lexorder"
begin

section \<open>FinPer chatbot: command parsing and budget accounting\<close>

text \<open>
  A shallow embedding of \<^verbatim>\<open>app.py\<close> and \<^verbatim>\<open>data_handler.py\<close>.

  Conventions of the embedding:
  \<^item> Python \<^verbatim>\<open>str\<close> is \<^typ>\<open>string\<close>. The text primitives (\<^verbatim>\<open>lower\<close>, \<^verbatim>\<open>upper\<close>,
    \<^verbatim>\<open>split\<close>, \<^verbatim>\<open>int\<close>) are modelled on ASCII: a character above 127 is neither a letter,
    nor a digit, nor whitespace.
  \<^item> Python \<^verbatim>\<open>int\<close> is \<^typ>\<open>int\<close>.
  \<^item> Python \<^verbatim>\<open>float\<close> is a type parameter \<open>'f\<close>; the four float operations the program
    performs are the fields of a record that every function using them receives.
  \<^item> The spreadsheet is the list of its rows in the order they were appended and the JSON
    file is the list of the items of its dictionary. A file is read back as it was written,
    but for the texts of a category that \<^verbatim>\<open>pandas\<close> reads as a missing value.
  \<^item> The cells of the ledger hold integers and texts; the sums over them are those of
    \<^verbatim>\<open>pandas\<close>, with its column types.
  \<^item> An exception is a value \<open>Inl e\<close>. A handler returns the outcome together with the
    stores, since an exception raised after a write does not undo the write.
  \<^item> The clock is read once for each message; the random transaction identifier is an input.
\<close>

subsection \<open>Text primitives of Python\<close>

text \<open>\<^verbatim>\<open>str.isspace\<close> on ASCII: tab, line feed, vertical tab, form feed, carriage return,
  the four separators 0x1C..0x1F and the blank.\<close>

definition is_space :: "char \<Rightarrow> bool" where
  "is_space c \<longleftrightarrow> (let n = (of_char c :: int) in (9 \<le> n \<and> n \<le> 13) \<or> (28 \<le> n \<and> n \<le> 32))"

definition is_digit :: "char \<Rightarrow> bool" where
  "is_digit c \<longleftrightarrow> (let n = (of_char c :: int) in 48 \<le> n \<and> n \<le> 57)"

definition digit_val :: "char \<Rightarrow> int" where
  "digit_val c = of_char c - 48"

definition lower_char :: "char \<Rightarrow> char" where
  "lower_char c = (let n = (of_char c :: int) in if 65 \<le> n \<and> n \<le> 90 then char_of (n + 32) else c)"

definition upper_char :: "char \<Rightarrow> char" where
  "upper_char c = (let n = (of_char c :: int) in if 97 \<le> n \<and> n \<le> 122 then char_of (n - 32) else c)"

definition lower :: "string \<Rightarrow> string" where
  "lower s = map lower_char s"

definition upper :: "string \<Rightarrow> string" where
  "upper s = map upper_char s"

text \<open>\<^verbatim>\<open>str.split()\<close> without a separator: the maximal runs of non-whitespace characters.\<close>

fun split :: "string \<Rightarrow> string list" where
  "split [] = []"
| "split (c # cs) =
     (if is_space c then split cs
      else (case cs of
              [] \<Rightarrow> [[c]]
            | d # ds \<Rightarrow> if is_space d then [c] # split cs
                       else (case split cs of [] \<Rightarrow> [[c]] | t # ts \<Rightarrow> (c # t) # ts)))"

text \<open>\<^verbatim>\<open>" ".join(xs)\<close> and \<^verbatim>\<open>"\n".join(xs)\<close>.\<close>

fun join :: "string \<Rightarrow> string list \<Rightarrow> string" where
  "join sep [] = []"
| "join sep [x] = x"
| "join sep (x # y # ys) = x @ sep @ join sep (y # ys)"

text \<open>\<^verbatim>\<open>int(s)\<close> in base ten: surrounding whitespace is stripped, one sign is allowed, then
  decimal digits, where a single underscore may stand between two digits. \<open>None\<close> is the
  \<^verbatim>\<open>ValueError\<close>. (The interpreter's limit on the number of digits is not modelled.)\<close>

fun parse_digits :: "int \<Rightarrow> string \<Rightarrow> int option" where
  "parse_digits acc [] = Some acc"
| "parse_digits acc (c # cs) =
     (if is_digit c then parse_digits (acc * 10 + digit_val c) cs
      else if c = CHR ''_'' then
        (case cs of
           [] \<Rightarrow> None
         | d # ds \<Rightarrow> if is_digit d then parse_digits (acc * 10 + digit_val d) ds else None)
      else None)"

definition parse_unsigned :: "string \<Rightarrow> int option" where
  "parse_unsigned s =
     (case s of [] \<Rightarrow> None
      | c # cs \<Rightarrow> if is_digit c then parse_digits (digit_val c) cs else None)"

definition strip :: "string \<Rightarrow> string" where
  "strip s = rev (dropWhile is_space (rev (dropWhile is_space s)))"

definition py_int :: "string \<Rightarrow> int option" where
  "py_int s =
     (case strip s of
        [] \<Rightarrow> None
      | c # cs \<Rightarrow>
          if c = CHR ''+'' then parse_unsigned cs
          else if c = CHR ''-'' then map_option uminus (parse_unsigned cs)
          else parse_unsigned (c # cs))"

text \<open>\<^verbatim>\<open>str(n)\<close> and the format \<^verbatim>\<open>f"{n:,}"\<close> of an integer.\<close>

definition digit_char :: "int \<Rightarrow> char" where
  "digit_char d = char_of (48 + d)"

text \<open>The decimal digits of a number that is not negative.\<close>

function digits :: "int \<Rightarrow> string" where
  "digits n = (if n < 10 then [digit_char n] else digits (n div 10) @ [digit_char (n mod 10)])"
  by pat_completeness auto
termination
  by (relation "measure nat") auto

declare digits.simps [simp del]

definition str_int :: "int \<Rightarrow> string" where
  "str_int i = (if i < 0 then CHR ''-'' # digits (- i) else digits i)"

fun group3 :: "string \<Rightarrow> string" where
  "group3 (a # b # c # d # ds) = a # b # c # CHR '','' # group3 (d # ds)"
| "group3 ds = ds"

definition fmt_commas :: "int \<Rightarrow> string" where
  "fmt_commas i =
     (if i < 0 then CHR ''-'' # rev (group3 (rev (digits (- i))))
      else rev (group3 (rev (digits i))))"


subsection \<open>Numbers, exceptions and floating point\<close>

datatype error = ValueError | ZeroDivisionError | OverflowError

text \<open>The float operations the program uses: \<^verbatim>\<open>a / b\<close> on two integers with \<open>b \<noteq> 0\<close>
  (\<open>None\<close> when the quotient is too large for a float, which raises), \<^verbatim>\<open>x * n\<close>,
  \<^verbatim>\<open>round(x, n)\<close> and \<^verbatim>\<open>str(x)\<close>.\<close>

record 'f float_ops =
  int_truediv :: "int \<Rightarrow> int \<Rightarrow> 'f option"
  float_mul :: "'f \<Rightarrow> int \<Rightarrow> 'f"
  float_round :: "'f \<Rightarrow> int \<Rightarrow> 'f"
  float_str :: "'f \<Rightarrow> string"

datatype 'f number = PyInt int | PyFloat 'f

definition py_truediv :: "'f float_ops \<Rightarrow> int \<Rightarrow> int \<Rightarrow> error + 'f" where
  "py_truediv ops a b =
     (if b = 0 then Inl ZeroDivisionError
      else (case int_truediv ops a b of None \<Rightarrow> Inl OverflowError | Some q \<Rightarrow> Inr q))"

text \<open>\<^verbatim>\<open>round(x, n)\<close>: an integer rounded to \<open>n \<ge> 0\<close> places is itself.\<close>

fun py_round :: "'f float_ops \<Rightarrow> 'f number \<Rightarrow> int \<Rightarrow> 'f number" where
  "py_round ops (PyInt i) n = PyInt i"
| "py_round ops (PyFloat x) n = PyFloat (float_round ops x n)"

fun py_str :: "'f float_ops \<Rightarrow> 'f number \<Rightarrow> string" where
  "py_str ops (PyInt i) = str_int i"
| "py_str ops (PyFloat x) = float_str ops x"

text \<open>An instance with exact rational arithmetic and rounding of ties to even. It gives
  the values of binary floating point wherever no operation of the latter rounds, and
  serves to run the functions on such inputs.\<close>

definition round_half_even :: "rat \<Rightarrow> int" where
  "round_half_even x =
     (let f = \<lfloor>x\<rfloor>; d = x - of_int f
      in if d < 1 / 2 then f else if 1 / 2 < d then f + 1 else if even f then f else f + 1)"

definition tenths_str :: "rat \<Rightarrow> string" where
  "tenths_str x =
     (let t = \<lfloor>\<bar>x\<bar> * 10\<rfloor>
      in (if x < 0 then ''-'' else []) @ str_int (t div 10) @ ''.'' @ str_int (t mod 10))"

definition exact_ops :: "rat float_ops" where
  "exact_ops =
     \<lparr> int_truediv = (\<lambda>a b. Some (of_int a / of_int b)),
       float_mul = (\<lambda>x n. x * of_int n),
       float_round = (\<lambda>x n. of_int (round_half_even (x * 10 ^ nat n)) / 10 ^ nat n),
       float_str = tenths_str \<rparr>"

subsection \<open>The stores\<close>

record date =
  d_year :: int
  d_month :: int
  d_day :: int

record datetime =
  dt_year :: int
  dt_month :: int
  dt_day :: int
  dt_clock :: nat

text \<open>\<^verbatim>\<open>now.strftime("%Y-%m-%d")\<close>, read back by \<^verbatim>\<open>pd.to_datetime\<close>.\<close>

definition strftime_ymd :: "datetime \<Rightarrow> date" where
  "strftime_ymd t = \<lparr> d_year = dt_year t, d_month = dt_month t, d_day = dt_day t \<rparr>"

record transaction =
  ID :: string
  Fecha :: date
  Tipo :: string
  Cantidad :: int
  Divisa :: string
  Tipo_de_Cambio :: int
  Categoria :: string
  Detalle :: string
  Notas :: "string option"
  Productos :: "string option"
  Ubicacion :: "string option"
  Telefono :: int
  Creado :: datetime

record store =
  ledger :: "transaction list"
  budgets :: "(string \<times> int) list"

record env =
  env_now :: datetime
  env_id :: string

definition DEFAULT_TIPO_CAMBIO :: int where
  "DEFAULT_TIPO_CAMBIO = 3900"

definition read_transactions :: "store \<Rightarrow> transaction list" where
  "read_transactions w = ledger w"

definition save_transactions :: "store \<Rightarrow> transaction list \<Rightarrow> store" where
  "save_transactions w df = w\<lparr>ledger := df\<rparr>"

definition add_transaction ::
  "env \<Rightarrow> store \<Rightarrow> int \<Rightarrow> string \<Rightarrow> int \<Rightarrow> string \<Rightarrow> int \<Rightarrow> string \<Rightarrow> string \<Rightarrow> store" where
  "add_transaction e w phone tipo cantidad divisa tipo_cambio categoria detalle =
     (let df = read_transactions w;
          new_row = \<lparr> ID = env_id e, Fecha = strftime_ymd (env_now e), Tipo = tipo,
                      Cantidad = cantidad, Divisa = divisa, Tipo_de_Cambio = tipo_cambio,
                      Categoria = categoria, Detalle = detalle, Notas = None,
                      Productos = None, Ubicacion = None, Telefono = phone,
                      Creado = env_now e \<rparr>
      in save_transactions w (df @ [new_row]))"

definition get_budget :: "store \<Rightarrow> int \<Rightarrow> int option" where
  "get_budget w phone = map_of (budgets w) (str_int phone)"

definition set_budget :: "store \<Rightarrow> int \<Rightarrow> int \<Rightarrow> store" where
  "set_budget w phone amount = w\<lparr>budgets := AList.update (str_int phone) amount (budgets w)\<rparr>"

subsection \<open>Integer columns of pandas\<close>

text \<open>The program leaves the sums to \<^verbatim>\<open>pandas\<close>. The column \<^verbatim>\<open>Cantidad_COP\<close> is built by
  \<^verbatim>\<open>apply\<close> from Python integers, and its type is inferred from them: \<^verbatim>\<open>int64\<close> when all
  values fit 64 signed bits; \<^verbatim>\<open>uint64\<close> when none is negative and all fit 64 unsigned bits;
  \<^verbatim>\<open>object\<close>, holding the Python integers themselves, in every other case.\<close>

definition INT64_MIN :: int where
  "INT64_MIN = - (2 ^ 63)"

definition INT64_MAX :: int where
  "INT64_MAX = 2 ^ 63 - 1"

definition UINT64_MAX :: int where
  "UINT64_MAX = 2 ^ 64 - 1"

definition in_int64 :: "int \<Rightarrow> bool" where
  "in_int64 x \<longleftrightarrow> INT64_MIN \<le> x \<and> x \<le> INT64_MAX"

datatype dtype = Int64 | UInt64 | Object

definition infer_dtype :: "int list \<Rightarrow> dtype" where
  "infer_dtype vs =
     (if list_ex (\<lambda>v. UINT64_MAX < v \<or> v < INT64_MIN) vs
         \<or> (list_ex (\<lambda>v. v < 0) vs \<and> list_ex (\<lambda>v. INT64_MAX < v) vs)
      then Object
      else if list_ex (\<lambda>v. INT64_MAX < v) vs then UInt64
      else Int64)"

text \<open>Two's complement: the value of the low 64 bits read as a signed number.\<close>

definition wrap_int64 :: "int \<Rightarrow> int" where
  "wrap_int64 x = (x + 2 ^ 63) mod 2 ^ 64 - 2 ^ 63"

text \<open>\<^verbatim>\<open>.sum()\<close> of a column or of a group: machine addition wraps around without an
  error, the addition of Python integers is exact.\<close>

definition series_sum :: "dtype \<Rightarrow> int list \<Rightarrow> int" where
  "series_sum dt vs =
     (case dt of
        Int64 \<Rightarrow> wrap_int64 (sum_list vs)
      | UInt64 \<Rightarrow> sum_list vs mod 2 ^ 64
      | Object \<Rightarrow> sum_list vs)"

text \<open>\<^verbatim>\<open>.astype(int)\<close>, the conversion to \<^verbatim>\<open>int64\<close> (the \<^verbatim>\<open>int\<close> of a 64-bit Linux, on
  which the service is deployed): nothing to do for \<^verbatim>\<open>int64\<close>, the same
  bits for \<^verbatim>\<open>uint64\<close>, and for a Python integer the \<^verbatim>\<open>OverflowError\<close> when it does not
  fit. The conversion of a column stops at the first value that fails.\<close>

definition astype_int :: "dtype \<Rightarrow> int \<Rightarrow> error + int" where
  "astype_int dt x =
     (case dt of
        Int64 \<Rightarrow> Inr x
      | UInt64 \<Rightarrow> Inr (wrap_int64 x)
      | Object \<Rightarrow> if in_int64 x then Inr x else Inl OverflowError)"

fun astype_items :: "dtype \<Rightarrow> (string \<times> int) list \<Rightarrow> error + (string \<times> int) list" where
  "astype_items dt [] = Inr []"
| "astype_items dt ((c, x) # items) =
     (case astype_int dt x of
        Inl err \<Rightarrow> Inl err
      | Inr y \<Rightarrow>
          (case astype_items dt items of
             Inl err \<Rightarrow> Inl err
           | Inr rest \<Rightarrow> Inr ((c, y) # rest)))"

text \<open>\<^verbatim>\<open>pd.read_excel\<close> reads a text cell that holds one of its markers of a missing value
  (the default list of pandas 2) back as \<^verbatim>\<open>NaN\<close>, and any other text as it was written. The
  rows of the ledger keep the text of the category; the marker is looked for where the
  category is read, as the key of \<^verbatim>\<open>groupby\<close>, which leaves out the rows whose key is
  \<^verbatim>\<open>NaN\<close>.\<close>

definition na_values :: "string list" where
  "na_values =
     ['''', ''#N/A'', ''#N/A N/A'', ''#NA'', ''-1.#IND'', ''-1.#QNAN'', ''-NaN'', ''-nan'',
      ''1.#IND'', ''1.#QNAN'', ''<NA>'', ''N/A'', ''NA'', ''NULL'', ''NaN'', ''None'', ''n/a'',
      ''nan'', ''null'']"

definition is_na :: "string \<Rightarrow> bool" where
  "is_na s \<longleftrightarrow> s \<in> set na_values"

subsection \<open>Budget status\<close>

text \<open>\<^verbatim>\<open>year or now.year\<close>: the default also replaces a zero.\<close>

definition py_or :: "int option \<Rightarrow> int \<Rightarrow> int" where
  "py_or x d = (case x of None \<Rightarrow> d | Some v \<Rightarrow> if v = 0 then d else v)"

definition Cantidad_COP :: "transaction \<Rightarrow> int" where
  "Cantidad_COP row =
     (if Divisa row = ''USD'' then Cantidad row * Tipo_de_Cambio row else Cantidad row)"

text \<open>The dictionary \<^verbatim>\<open>by_category\<close> is the list of its items in insertion order;
  \<^verbatim>\<open>groupby\<close> yields the groups in sorted order of the key. \<open>Inl\<close> is the exception that
  leaves the function.\<close>

definition get_monthly_expenses_cop ::
  "datetime \<Rightarrow> store \<Rightarrow> int \<Rightarrow> int option \<Rightarrow> int option
     \<Rightarrow> error + int \<times> (string \<times> int) list" where
  "get_monthly_expenses_cop now w phone year month =
     (let year = py_or year (dt_year now);
          month = py_or month (dt_month now);
          df = read_transactions w
      in if df = [] then Inr (0, [])
         else
           let expenses = filter (\<lambda>row. Telefono row = phone \<and> Tipo row = ''egreso''
                                   \<and> d_year (Fecha row) = year \<and> d_month (Fecha row) = month) df
           in if expenses = [] then Inr (0, [])
              else
                let dt = infer_dtype (map Cantidad_COP expenses);
                    total = series_sum dt (map Cantidad_COP expenses);
                    keyed = filter (\<lambda>row. \<not> is_na (Categoria row)) expenses;
                    grouped =
                      map (\<lambda>c. (c, series_sum dt (map Cantidad_COP
                                       (filter (\<lambda>row. Categoria row = c) keyed))))
                          (sort (remdups (map Categoria keyed)))
                in (case astype_items dt grouped of
                      Inl err \<Rightarrow> Inl err
                    | Inr by_category \<Rightarrow> Inr (total, by_category)))"

datatype 'f budget_status =
    No_Budget (st_spent_cop: int) (st_by_category: "(string \<times> int) list")
  | With_Budget (st_budget: int) (st_spent_cop: int) (st_percentage: "'f number")
      (st_remaining: int) (st_by_category: "(string \<times> int) list")

definition has_budget :: "'f budget_status \<Rightarrow> bool" where
  "has_budget st = (case st of No_Budget _ _ \<Rightarrow> False | With_Budget _ _ _ _ _ \<Rightarrow> True)"

definition get_budget_status ::
  "'f float_ops \<Rightarrow> datetime \<Rightarrow> store \<Rightarrow> int \<Rightarrow> error + 'f budget_status" where
  "get_budget_status ops now w phone =
     (let budget = get_budget w phone
      in case get_monthly_expenses_cop now w phone None None of
           Inl err \<Rightarrow> Inl err
         | Inr (spent, by_category) \<Rightarrow>
             (case budget of
                None \<Rightarrow> Inr (No_Budget spent by_category)
              | Some budget \<Rightarrow>
                  (case (if budget > 0
                         then (case py_truediv ops spent budget of
                                 Inl err \<Rightarrow> Inl err
                               | Inr q \<Rightarrow> Inr (PyFloat (float_mul ops q 100)))
                         else Inr (PyInt 0)) of
                     Inl err \<Rightarrow> Inl err
                   | Inr percentage \<Rightarrow>
                       let remaining = budget - spent
                       in Inr (With_Budget budget spent (py_round ops percentage 1) remaining
                                 by_category))))"

subsection \<open>Formatting\<close>

definition months_es :: "string list" where
  "months_es =
     ['''', ''Enero'', ''Febrero'', ''Marzo'', ''Abril'', ''Mayo'', ''Junio'',
      ''Julio'', ''Agosto'', ''Septiembre'', ''Octubre'', ''Noviembre'', ''Diciembre'']"

text \<open>The local variable \<^verbatim>\<open>lines\<close> of \<^verbatim>\<open>format_budget_status\<close> is built in three parts:
  the header, the budget lines and the category block; the report joins them. The month
  of a clock reading lies between 1 and 12, so the table lookup is in range.\<close>

definition header_line :: "datetime \<Rightarrow> string" where
  "header_line now =
     ''Estado del presupuesto - '' @ months_es ! nat (dt_month now) @ '' '' @ str_int (dt_year now)"

definition budget_lines :: "'f float_ops \<Rightarrow> 'f budget_status \<Rightarrow> string list" where
  "budget_lines ops status =
     (if \<not> has_budget status then
        [''Gastado este mes: $'' @ fmt_commas (st_spent_cop status) @ '' COP'',
         '''',
         ''No tienes un tope mensual configurado.'',
         ''Usa *tope <monto>* para definirlo.'']
      else
        [''Tope mensual: $'' @ fmt_commas (st_budget status) @ '' COP'',
         ''Gastado: $'' @ fmt_commas (st_spent_cop status) @ '' COP (''
            @ py_str ops (st_percentage status) @ ''%)'',
         (if st_remaining status \<ge> 0
          then ''Disponible: $'' @ fmt_commas (st_remaining status) @ '' COP''
          else ''EXCEDIDO por: $'' @ fmt_commas \<bar>st_remaining status\<bar> @ '' COP'')])"

definition category_lines :: "'f budget_status \<Rightarrow> string list" where
  "category_lines status =
     (if st_by_category status \<noteq> [] then
        ['''', ''Por categoria:'']
        @ map (\<lambda>(cat, amount). ''  - '' @ cat @ '': $'' @ fmt_commas amount @ '' COP'')
              (sort (st_by_category status))
      else [])"

definition report_lines :: "'f float_ops \<Rightarrow> datetime \<Rightarrow> 'f budget_status \<Rightarrow> string list" where
  "report_lines ops now status =
     [header_line now] @ budget_lines ops status @ category_lines status"

definition format_budget_status :: "'f float_ops \<Rightarrow> datetime \<Rightarrow> 'f budget_status \<Rightarrow> string" where
  "format_budget_status ops now status = join ''\<newline>'' (report_lines ops now status)"

definition msg_ayuda :: string where
  "msg_ayuda =
     ''Comandos disponibles:\<newline>\<newline>''
     @ ''*gasto <monto> <categoria> <detalle>*\<newline>''
     @ ''  Registrar un gasto en COP\<newline>''
     @ ''  Ej: gasto 50000 alimentacion almuerzo\<newline>\<newline>''
     @ ''*gasto <monto> USD <categoria> <detalle>*\<newline>''
     @ ''  Registrar un gasto en dolares\<newline>''
     @ ''  Ej: gasto 20 USD tecnologia hosting\<newline>\<newline>''
     @ ''*ingreso <monto> <categoria> <detalle>*\<newline>''
     @ ''  Registrar un ingreso\<newline>''
     @ ''  Ej: ingreso 3000000 salario mensual\<newline>\<newline>''
     @ ''*tope <monto>*\<newline>''
     @ ''  Definir tope mensual en COP\<newline>''
     @ ''  Ej: tope 2000000\<newline>\<newline>''
     @ ''*estado*\<newline>''
     @ ''  Ver resumen del mes (gastado, % y disponible)\<newline>\<newline>''
     @ ''*ayuda*\<newline>''
     @ ''  Ver este mensaje''"

subsection \<open>Command handlers\<close>

type_synonym outcome = "(error + string) \<times> store"

definition msg_gasto_formato :: string where
  "msg_gasto_formato =
     ''Formato: *gasto <monto> <categoria> <detalle>*\<newline>''
     @ ''Ejemplo: gasto 50000 alimentacion almuerzo\<newline>''
     @ ''Para USD: gasto 20 USD tecnologia hosting''"

definition msg_gasto_monto :: string where
  "msg_gasto_monto = ''El monto debe ser un numero. Ejemplo: *gasto 50000 alimentacion almuerzo*''"

definition msg_ingreso_formato :: string where
  "msg_ingreso_formato =
     ''Formato: *ingreso <monto> <categoria> <detalle>*\<newline>''
     @ ''Ejemplo: ingreso 3000000 salario mensual''"

definition msg_ingreso_monto :: string where
  "msg_ingreso_monto = ''El monto debe ser un numero. Ejemplo: *ingreso 3000000 salario mensual*''"

definition msg_tope_monto :: string where
  "msg_tope_monto = ''El monto debe ser un numero. Ejemplo: *tope 2000000*''"

definition msg_sin_tope :: string where
  "msg_sin_tope = ''No tienes un tope mensual. Usa: *tope <monto>*\<newline>Ejemplo: tope 2000000''"

definition msg_no_entendi :: string where
  "msg_no_entendi = ''No entendi el comando. Escribe *ayuda* para ver los comandos disponibles.''"

text \<open>The argument grammar, which \<^verbatim>\<open>handle_gasto\<close> and \<^verbatim>\<open>handle_ingreso\<close> spell out in the
  same words: the currency with the cursor \<^verbatim>\<open>next_idx\<close>, then the category and the detail.\<close>

definition divisa_of :: "string list \<Rightarrow> string \<times> nat" where
  "divisa_of args =
     (if length args > 1 \<and> upper (args ! 1) \<in> {''USD'', ''COP''}
      then (upper (args ! 1), 2) else (''COP'', 1))"

definition categoria_of :: "string list \<Rightarrow> nat \<Rightarrow> string" where
  "categoria_of args next_idx = (if length args > next_idx then args ! next_idx else ''general'')"

definition detalle_of :: "string list \<Rightarrow> nat \<Rightarrow> string" where
  "detalle_of args next_idx =
     (if length args > next_idx + 1 then join '' '' (drop (next_idx + 1) args) else '''')"

definition handle_gasto :: "'f float_ops \<Rightarrow> env \<Rightarrow> store \<Rightarrow> string \<Rightarrow> string list \<Rightarrow> outcome" where
  "handle_gasto ops e w phone args =
     (if length args < 2 then (Inr msg_gasto_formato, w)
      else
        (case py_int (args ! 0) of
           None \<Rightarrow> (Inr msg_gasto_monto, w)
         | Some cantidad \<Rightarrow>
             let (divisa, next_idx) = divisa_of args;
                 categoria = categoria_of args next_idx;
                 detalle = detalle_of args next_idx
             in (case py_int phone of
                   None \<Rightarrow> (Inl ValueError, w)
                 | Some p \<Rightarrow>
                     let w' = add_transaction e w p ''egreso'' cantidad divisa
                                DEFAULT_TIPO_CAMBIO categoria detalle;
                         cantidad_cop = (if divisa = ''USD'' then cantidad * DEFAULT_TIPO_CAMBIO
                                         else cantidad);
                         response = ''Gasto registrado: $'' @ fmt_commas cantidad @ '' '' @ divisa
                           @ (if divisa = ''USD'' then '' ($'' @ fmt_commas cantidad_cop @ '' COP)''
                              else '''')
                           @ '' en '' @ categoria
                           @ (if detalle \<noteq> '''' then '' - '' @ detalle else '''')
                     in (case get_budget_status ops (env_now e) w' p of
                           Inl err \<Rightarrow> (Inl err, w')
                         | Inr status \<Rightarrow>
                             (Inr (response @ ''\<newline>\<newline>''
                                   @ format_budget_status ops (env_now e) status), w')))))"

definition handle_ingreso :: "env \<Rightarrow> store \<Rightarrow> string \<Rightarrow> string list \<Rightarrow> outcome" where
  "handle_ingreso e w phone args =
     (if length args < 2 then (Inr msg_ingreso_formato, w)
      else
        (case py_int (args ! 0) of
           None \<Rightarrow> (Inr msg_ingreso_monto, w)
         | Some cantidad \<Rightarrow>
             let (divisa, next_idx) = divisa_of args;
                 categoria = categoria_of args next_idx;
                 detalle = detalle_of args next_idx
             in (case py_int phone of
                   None \<Rightarrow> (Inl ValueError, w)
                 | Some p \<Rightarrow>
                     let w' = add_transaction e w p ''ingreso'' cantidad divisa
                                DEFAULT_TIPO_CAMBIO categoria detalle
                     in (Inr (''Ingreso registrado: $'' @ fmt_commas cantidad @ '' '' @ divisa
                              @ '' en '' @ categoria), w'))))"

text \<open>\<^verbatim>\<open>if budget:\<close> is the truth value of the looked-up budget: false for \<^verbatim>\<open>None\<close> and
  for zero.\<close>

definition truthy :: "int option \<Rightarrow> bool" where
  "truthy b = (case b of None \<Rightarrow> False | Some v \<Rightarrow> v \<noteq> 0)"

definition handle_tope :: "store \<Rightarrow> string \<Rightarrow> string list \<Rightarrow> outcome" where
  "handle_tope w phone args =
     (if args = [] then
        (case py_int phone of
           None \<Rightarrow> (Inl ValueError, w)
         | Some p \<Rightarrow>
             let budget = get_budget w p
             in if truthy budget
                then (Inr (''Tu tope mensual actual es: $'' @ fmt_commas (the budget)
                           @ '' COP\<newline>Para cambiarlo: *tope <monto>*''), w)
                else (Inr msg_sin_tope, w))
      else
        (case py_int (args ! 0) of
           None \<Rightarrow> (Inr msg_tope_monto, w)
         | Some amount \<Rightarrow>
             (case py_int phone of
                None \<Rightarrow> (Inl ValueError, w)
              | Some p \<Rightarrow>
                  (Inr (''Tope mensual actualizado: $'' @ fmt_commas amount @ '' COP''),
                   set_budget w p amount))))"

definition handle_estado :: "'f float_ops \<Rightarrow> env \<Rightarrow> store \<Rightarrow> string \<Rightarrow> outcome" where
  "handle_estado ops e w phone =
     (case py_int phone of
        None \<Rightarrow> (Inl ValueError, w)
      | Some p \<Rightarrow>
          (case get_budget_status ops (env_now e) w p of
             Inl err \<Rightarrow> (Inl err, w)
           | Inr status \<Rightarrow> (Inr (format_budget_status ops (env_now e) status), w)))"

definition handle_message :: "'f float_ops \<Rightarrow> env \<Rightarrow> store \<Rightarrow> string \<Rightarrow> string \<Rightarrow> outcome" where
  "handle_message ops e w phone text =
     (let parts = split (lower text)
      in if parts = [] then (Inr msg_ayuda, w)
         else
           let command = parts ! 0
           in if command \<in> {''gasto'', ''egreso''} then handle_gasto ops e w phone (drop 1 parts)
              else if command \<in> {''ingreso'', ''entrada''} then handle_ingreso e w phone (drop 1 parts)
              else if command \<in> {''tope'', ''presupuesto''} then handle_tope w phone (drop 1 parts)
              else if command \<in> {''estado'', ''resumen''} then handle_estado ops e w phone
              else if command = ''ayuda'' then (Inr msg_ayuda, w)
              else (Inr msg_no_entendi, w))"

subsection \<open>Sample inputs\<close>

text \<open>A clock reading, an identifier and some stores on which the functions are run.\<close>

definition example_env :: env where
  "example_env = \<lparr> env_now = \<lparr> dt_year = 2026, dt_month = 11, dt_day = 3, dt_clock = 0 \<rparr>,
                    env_id = ''k3x9q2ab'' \<rparr>"

definition empty_store :: store where
  "empty_store = \<lparr> ledger = [], budgets = [] \<rparr>"

definition zero_budget_store :: store where
  "zero_budget_store = \<lparr> ledger = [], budgets = [(''573001234567'', 0)] \<rparr>"

definition usd_args :: "string list" where
  "usd_args = [''-20'', ''usd'', ''tecnologia'', ''hosting'', ''anual'']"

definition ledger_row :: "int \<Rightarrow> int \<Rightarrow> int \<Rightarrow> string \<Rightarrow> int \<Rightarrow> string \<Rightarrow> string \<Rightarrow> transaction" where
  "ledger_row phone y m tipo cantidad divisa categoria =
     \<lparr> ID = ''k3x9q2ab'', Fecha = \<lparr> d_year = y, d_month = m, d_day = 3 \<rparr>, Tipo = tipo,
       Cantidad = cantidad, Divisa = divisa, Tipo_de_Cambio = 4000, Categoria = categoria,
       Detalle = '''', Notas = None, Productos = None, Ubicacion = None, Telefono = phone,
       Creado = \<lparr> dt_year = y, dt_month = m, dt_day = 3, dt_clock = 0 \<rparr> \<rparr>"

definition mixed_store :: store where
  "mixed_store =
     \<lparr> ledger =
         [ledger_row 573001234567 2026 11 ''egreso'' 20 ''USD'' ''tecnologia'',
          ledger_row 573001234567 2026 11 ''egreso'' 50000 ''COP'' ''alimentacion'',
          ledger_row 573001234567 2026 11 ''ingreso'' 3000000 ''COP'' ''salario'',
          ledger_row 573009999999 2026 11 ''egreso'' 70000 ''COP'' ''alimentacion'',
          ledger_row 573001234567 2026 10 ''egreso'' 80000 ''COP'' ''alimentacion'',
          ledger_row 573001234567 2026 11 ''egreso'' 1000 ''COP'' ''alimentacion''],
       budgets = [] \<rparr>"

definition negative_budget_store :: store where
  "negative_budget_store =
     \<lparr> ledger = [ledger_row 573001234567 2026 11 ''egreso'' 50 ''COP'' ''alimentacion''],
       budgets = [(''573001234567'', - 100)] \<rparr>"

definition over_budget_store :: store where
  "over_budget_store =
     \<lparr> ledger = [ledger_row 573001234567 2026 11 ''egreso'' 2500000 ''COP'' ''alimentacion''],
       budgets = [(''573001234567'', 2000000)] \<rparr>"

definition null_category_store :: store where
  "null_category_store =
     \<lparr> ledger = [ledger_row 573001234567 2026 11 ''egreso'' 5000 ''COP'' ''null'',
                 ledger_row 573001234567 2026 11 ''egreso'' 7000 ''COP'' ''comida''],
       budgets = [] \<rparr>"

definition wrapping_store :: store where
  "wrapping_store =
     \<lparr> ledger = [ledger_row 573001234567 2026 11 ''egreso'' (2 ^ 62) ''COP'' ''comida'',
                 ledger_row 573001234567 2026 11 ''egreso'' (2 ^ 62) ''COP'' ''comida''],
       budgets = [] \<rparr>"

definition big_amount_store :: store where
  "big_amount_store =
     \<lparr> ledger = [ledger_row 573001234567 2026 11 ''egreso'' (10 ^ 20) ''COP'' ''comida''],
       budgets = [] \<rparr>"

definition november_expenses :: "transaction list" where
  "november_expenses =
     [ledger_row 573001234567 2026 11 ''egreso'' 20 ''USD'' ''tecnologia'',
      ledger_row 573001234567 2026 11 ''egreso'' 50000 ''COP'' ''alimentacion'',
      ledger_row 573001234567 2026 11 ''egreso'' 1000 ''COP'' ''alimentacion'']"

definition within_budget_status :: "rat budget_status" where
  "within_budget_status = With_Budget 2000000 500000 (PyFloat 25) 1500000 []"

definition over_budget_status :: "rat budget_status" where
  "over_budget_status =
     With_Budget 2000000 2500000 (PyFloat 125) (- 500000) [(''alimentacion'', 2500000)]"

definition three_category_status :: "rat budget_status" where
  "three_category_status = No_Budget 600 [(''z'', 100), (''a'', 200), (''m'', 300)]"

subsection \<open>The percentage as the specification words it\<close>

text \<open>The specification gives the percentage as \<^verbatim>\<open>round(spent/budget*100, 1)\<close>, and as 0 when
  the budget is 0. This definition follows those words, for comparison with
  \<^verbatim>\<open>get_budget_status\<close>; \<open>None\<close> is a division that yields no float.\<close>

definition spec_percentage :: "'f float_ops \<Rightarrow> int \<Rightarrow> int \<Rightarrow> 'f number option" where
  "spec_percentage ops s b =
     (if b = 0 then Some (PyInt 0)
      else map_option (\<lambda>q. PyFloat (float_round ops (float_mul ops q 100) 1))
             (int_truediv ops s b))"

subsection \<open>Equality without regard to case\<close>

text \<open>Two strings are equal without regard to case when their lower-case forms are equal:
  the comparison that the specification asks of the currency token.\<close>

definition caseless_eq :: "string \<Rightarrow> string \<Rightarrow> bool" where
  "caseless_eq s t \<longleftrightarrow> lower s = lower t"

subsection \<open>The messages that write\<close>

text \<open>Two predicates on an inbound message, in the words of the specification, to state
  which messages change a store: a message records a transaction when its command word is
  one of the expense or income words, at least two arguments follow, the first of them is
  an integer and the sender is a number; it sets the budget when its command word is one
  of the budget words, an argument follows and is an integer, and the sender is a number.\<close>

definition records_transaction :: "string \<Rightarrow> string \<Rightarrow> bool" where
  "records_transaction phone body =
     (case split (lower body) of
        [] \<Rightarrow> False
      | cmd # args \<Rightarrow>
          cmd \<in> {''gasto'', ''egreso'', ''ingreso'', ''entrada''} \<and> 2 \<le> length args
          \<and> py_int (args ! 0) \<noteq> None \<and> py_int phone \<noteq> None)"

definition sets_budget :: "string \<Rightarrow> string \<Rightarrow> bool" where
  "sets_budget phone body =
     (case split (lower body) of
        [] \<Rightarrow> False
      | cmd # args \<Rightarrow>
          cmd \<in> {''tope'', ''presupuesto''} \<and> args \<noteq> []
          \<and> py_int (args ! 0) \<noteq> None \<and> py_int phone \<noteq> None)"

section \<open>Properties\<close>

subsection \<open>Trailing tokens\<close>

lemma split_estado: "split (lower ''estado'') = [''estado'']"
  by code_simp

lemma dispatch_estado:
  assumes "split (lower body) = cmd # extra" and "cmd \<in> {''estado'', ''resumen''}"
  shows "handle_message ops e w phone body = handle_estado ops e w phone"
  using assms by (auto simp add: handle_message_def Let_def)

lemma dispatch_tope:
  assumes "split (lower body) = cmd # args" and "cmd \<in> {''tope'', ''presupuesto''}"
  shows "handle_message ops e w phone body = handle_tope w phone args"
  using assms by (auto simp add: handle_message_def Let_def)

lemma get_budget_set_budget: "get_budget (set_budget w p n) p = Some n"
  by (simp add: get_budget_def set_budget_def update_conv')

text \<open>C10: tokens beyond what the grammar consumes are ignored. A message whose first token
  is \<^verbatim>\<open>estado\<close> or \<^verbatim>\<open>resumen\<close> is answered, whatever follows the command word, by the
  formatted report of the sender's current status, the stores unchanged, and in every
  case exactly as the bare message \<^verbatim>\<open>estado\<close> is. The budget command with two or more
  argument tokens takes the first of them as the amount: when it is an integer \<open>n\<close> the
  reply confirms \<open>n\<close> and the sender's budget becomes \<open>n\<close>, when it is not the reply
  is the message about the number; the other tokens play no part.\<close>

theorem trailing_tokens_ignored:
  "(split (lower body) = cmd # extra \<and> cmd \<in> {''estado'', ''resumen''}
      \<and> py_int phone = Some p \<and> get_budget_status ops (env_now e) w p = Inr st
      \<longrightarrow> handle_message ops e w phone body
            = (Inr (format_budget_status ops (env_now e) st), w))
   \<and> (split (lower body) = cmd # extra \<and> cmd \<in> {''estado'', ''resumen''}
      \<longrightarrow> handle_message ops e w phone body = handle_message ops e w phone ''estado'')
   \<and> (split (lower body) = cmd # a # rest \<and> cmd \<in> {''tope'', ''presupuesto''}
      \<and> py_int a = Some n \<and> py_int phone = Some p
      \<longrightarrow> handle_message ops e w phone body
            = (Inr (''Tope mensual actualizado: $'' @ fmt_commas n @ '' COP''),
               w\<lparr>budgets := AList.update (str_int p) n (budgets w)\<rparr>)
          \<and> get_budget (snd (handle_message ops e w phone body)) p = Some n)
   \<and> (split (lower body) = cmd # a # rest \<and> cmd \<in> {''tope'', ''presupuesto''}
      \<and> py_int a = None
      \<longrightarrow> handle_message ops e w phone body
            = (Inr ''El monto debe ser un numero. Ejemplo: *tope 2000000*'', w))"
proof (intro conjI impI)
  assume h: "split (lower body) = cmd # extra \<and> cmd \<in> {''estado'', ''resumen''}
      \<and> py_int phone = Some p \<and> get_budget_status ops (env_now e) w p = Inr st"
  then have "handle_message ops e w phone body = handle_estado ops e w phone"
    by (intro dispatch_estado [where cmd = cmd and extra = extra]) simp_all
  with h show "handle_message ops e w phone body
            = (Inr (format_budget_status ops (env_now e) st), w)"
    by (simp add: handle_estado_def)
next
  assume h: "split (lower body) = cmd # extra \<and> cmd \<in> {''estado'', ''resumen''}"
  then have "handle_message ops e w phone body = handle_estado ops e w phone"
    by (intro dispatch_estado [where cmd = cmd and extra = extra]) simp_all
  moreover have "handle_message ops e w phone ''estado'' = handle_estado ops e w phone"
    by (rule dispatch_estado [where cmd = "''estado''" and extra = "[]"])
      (simp_all add: split_estado)
  ultimately show "handle_message ops e w phone body = handle_message ops e w phone ''estado''"
    by simp
next
  assume h: "split (lower body) = cmd # a # rest \<and> cmd \<in> {''tope'', ''presupuesto''}
      \<and> py_int a = Some n \<and> py_int phone = Some p"
  then have "handle_message ops e w phone body = handle_tope w phone (a # rest)"
    by (intro dispatch_tope [where cmd = cmd]) simp_all
  with h show "handle_message ops e w phone body
            = (Inr (''Tope mensual actualizado: $'' @ fmt_commas n @ '' COP''),
               w\<lparr>budgets := AList.update (str_int p) n (budgets w)\<rparr>)"
    by (simp add: handle_tope_def set_budget_def)
next
  assume h: "split (lower body) = cmd # a # rest \<and> cmd \<in> {''tope'', ''presupuesto''}
      \<and> py_int a = Some n \<and> py_int phone = Some p"
  then have "handle_message ops e w phone body = handle_tope w phone (a # rest)"
    by (intro dispatch_tope [where cmd = cmd]) simp_all
  with h have "snd (handle_message ops e w phone body) = set_budget w p n"
    by (simp add: handle_tope_def)
  then show "get_budget (snd (handle_message ops e w phone body)) p = Some n"
    by (simp add: get_budget_set_budget)
next
  assume h: "split (lower body) = cmd # a # rest \<and> cmd \<in> {''tope'', ''presupuesto''}
      \<and> py_int a = None"
  then have "handle_message ops e w phone body = handle_tope w phone (a # rest)"
    by (intro dispatch_tope [where cmd = cmd]) simp_all
  with h show "handle_message ops e w phone body
            = (Inr ''El monto debe ser un numero. Ejemplo: *tope 2000000*'', w)"
    by (simp add: handle_tope_def msg_tope_monto_def)
qed

theorem trailing_tokens_ignored_witness:
  "((split (lower ''Resumen de  hoy'') = ''resumen'' # [''de'', ''hoy'']
      \<and> ''resumen'' \<in> {''estado'', ''resumen''}
      \<and> py_int ''573001234567'' = Some 573001234567
      \<and> get_budget_status exact_ops (env_now example_env) over_budget_store 573001234567
          = Inr over_budget_status)
    \<and> handle_message exact_ops example_env over_budget_store ''573001234567'' ''Resumen de  hoy''
        = (Inr (format_budget_status exact_ops (env_now example_env) over_budget_status),
           over_budget_store))
   \<and> ((split (lower ''Resumen de  hoy'') = ''resumen'' # [''de'', ''hoy'']
      \<and> ''resumen'' \<in> {''estado'', ''resumen''})
    \<and> handle_message exact_ops example_env over_budget_store ''573001234567'' ''Resumen de  hoy''
        = handle_message exact_ops example_env over_budget_store ''573001234567'' ''estado'')
   \<and> ((split (lower ''tope 5000 ya mismo'') = ''tope'' # ''5000'' # [''ya'', ''mismo'']
      \<and> ''tope'' \<in> {''tope'', ''presupuesto''}
      \<and> py_int ''5000'' = Some 5000 \<and> py_int ''573001234567'' = Some 573001234567)
    \<and> (handle_message exact_ops example_env over_budget_store ''573001234567''
          ''tope 5000 ya mismo''
        = (Inr (''Tope mensual actualizado: $'' @ fmt_commas 5000 @ '' COP''),
           over_budget_store\<lparr>budgets :=
             AList.update (str_int 573001234567) 5000 (budgets over_budget_store)\<rparr>)
       \<and> get_budget (snd (handle_message exact_ops example_env over_budget_store
            ''573001234567'' ''tope 5000 ya mismo'')) 573001234567 = Some 5000))
   \<and> ((split (lower ''tope mucho 5000'') = ''tope'' # ''mucho'' # [''5000'']
      \<and> ''tope'' \<in> {''tope'', ''presupuesto''} \<and> py_int ''mucho'' = None)
    \<and> handle_message exact_ops example_env over_budget_store ''573001234567'' ''tope mucho 5000''
        = (Inr ''El monto debe ser un numero. Ejemplo: *tope 2000000*'', over_budget_store))"
proof -
  note t = trailing_tokens_ignored [where ops = exact_ops and e = example_env
      and w = over_budget_store and phone = "''573001234567''"]
  have h1: "split (lower ''Resumen de  hoy'') = ''resumen'' # [''de'', ''hoy'']
      \<and> ''resumen'' \<in> {''estado'', ''resumen''}
      \<and> py_int ''573001234567'' = Some 573001234567
      \<and> get_budget_status exact_ops (env_now example_env) over_budget_store 573001234567
          = Inr over_budget_status"
    by code_simp
  have h2: "split (lower ''Resumen de  hoy'') = ''resumen'' # [''de'', ''hoy'']
      \<and> ''resumen'' \<in> {''estado'', ''resumen''}"
    by code_simp
  have h3: "split (lower ''tope 5000 ya mismo'') = ''tope'' # ''5000'' # [''ya'', ''mismo'']
      \<and> ''tope'' \<in> {''tope'', ''presupuesto''}
      \<and> py_int ''5000'' = Some 5000 \<and> py_int ''573001234567'' = Some 573001234567"
    by code_simp
  have h4: "split (lower ''tope mucho 5000'') = ''tope'' # ''mucho'' # [''5000'']
      \<and> ''tope'' \<in> {''tope'', ''presupuesto''} \<and> py_int ''mucho'' = None"
    by code_simp
  note c1 = t [where body = "''Resumen de  hoy''" and cmd = "''resumen''"
      and extra = "[''de'', ''hoy'']" and p = 573001234567 and st = over_budget_status,
      THEN conjunct1, THEN mp, OF h1]
  note c2 = t [where body = "''Resumen de  hoy''" and cmd = "''resumen''"
      and extra = "[''de'', ''hoy'']", THEN conjunct2, THEN conjunct1, THEN mp, OF h2]
  note c3 = t [where body = "''tope 5000 ya mismo''" and cmd = "''tope''" and a = "''5000''"
      and rest = "[''ya'', ''mismo'']" and n = 5000 and p = 573001234567,
      THEN conjunct2, THEN conjunct2, THEN conjunct1, THEN mp, OF h3]
  note c4 = t [where body = "''tope mucho 5000''" and cmd = "''tope''" and a = "''mucho''"
      and rest = "[''5000'']", THEN conjunct2, THEN conjunct2, THEN conjunct2, THEN mp, OF h4]
  show ?thesis
    by (rule conjI [OF conjI [OF h1 c1] conjI [OF conjI [OF h2 c2]
          conjI [OF conjI [OF h3 c3] conjI [OF h4 c4]]]])
qed

subsection \<open>The budget query\<close>

text \<open>C4: with no argument the budget command should report every stored budget, zero
  included. On a store that holds the budget 0 for the sender, \<^verbatim>\<open>get_budget\<close> finds it and
  \<^verbatim>\<open>get_budget_status\<close> reports a budget, yet \<^verbatim>\<open>handle_tope\<close> answers that no budget is
  set: its test \<^verbatim>\<open>if budget:\<close> is false for zero. The store is returned unchanged.\<close>

theorem tope_query_with_zero_budget:
  "get_budget zero_budget_store 573001234567 = Some 0
   \<and> handle_tope zero_budget_store ''573001234567'' [] = (Inr msg_sin_tope, zero_budget_store)
   \<and> map_sum id has_budget (get_budget_status exact_ops (env_now example_env) zero_budget_store 573001234567) = Inr True"
  by code_simp

text \<open>What the budget query does in general: it never writes, and it reports exactly the
  stored budgets other than zero.\<close>

lemma handle_tope_query:
  "py_int phone = Some p \<Longrightarrow>
   handle_tope w phone [] =
     (case get_budget w p of
        None \<Rightarrow> (Inr msg_sin_tope, w)
      | Some b \<Rightarrow> if b = 0 then (Inr msg_sin_tope, w)
                  else (Inr (''Tu tope mensual actual es: $'' @ fmt_commas b
                           @ '' COP\<newline>Para cambiarlo: *tope <monto>*''), w))"
  by (simp add: handle_tope_def truthy_def Let_def split: option.splits)

subsection \<open>Amounts that are not numbers\<close>

text \<open>C6, as stated, fails when the amount is the only argument: the check of the number of
  arguments comes first, and the reply is the usage message, not the message about the
  number.\<close>

theorem non_numeric_amount_single_token:
  "py_int ''abc'' = None
   \<and> handle_gasto exact_ops example_env empty_store ''573001234567'' [''abc'']
       = (Inr msg_gasto_formato, empty_store)
   \<and> msg_gasto_formato \<noteq> msg_gasto_monto
   \<and> handle_ingreso example_env empty_store ''573001234567'' [''abc'']
       = (Inr msg_ingreso_formato, empty_store)
   \<and> msg_ingreso_formato \<noteq> msg_ingreso_monto"
  by code_simp

text \<open>C6, amended: with at least two argument tokens, an amount token that is not an integer
  is answered by the message that the amount must be a number, which carries a worked
  example, and both stores are returned unchanged; for an expense and for an income.\<close>

theorem non_numeric_amount_rejected:
  assumes "2 \<le> length args" and "py_int (args ! 0) = None"
  shows "handle_gasto ops e w phone args =
           (Inr ''El monto debe ser un numero. Ejemplo: *gasto 50000 alimentacion almuerzo*'', w)
         \<and> handle_ingreso e w phone args =
           (Inr ''El monto debe ser un numero. Ejemplo: *ingreso 3000000 salario mensual*'', w)"
  using assms by (simp add: handle_gasto_def handle_ingreso_def msg_gasto_monto_def msg_ingreso_monto_def)

theorem non_numeric_amount_rejected_witness:
  "2 \<le> length [''12x'', ''comida''] \<and> py_int ([''12x'', ''comida''] ! 0) = None
   \<and> handle_gasto exact_ops example_env zero_budget_store ''573001234567'' [''12x'', ''comida'']
       = (Inr ''El monto debe ser un numero. Ejemplo: *gasto 50000 alimentacion almuerzo*'', zero_budget_store)
   \<and> handle_ingreso example_env zero_budget_store ''573001234567'' [''12x'', ''comida'']
       = (Inr ''El monto debe ser un numero. Ejemplo: *ingreso 3000000 salario mensual*'', zero_budget_store)"
proof -
  have h1: "2 \<le> length [''12x'', ''comida'']" by simp
  have h2: "py_int ([''12x'', ''comida''] ! 0) = None" by code_simp
  note c = non_numeric_amount_rejected [OF h1 h2, of exact_ops example_env zero_budget_store "''573001234567''"]
  from h2 c have "py_int ([''12x'', ''comida''] ! 0) = None
   \<and> handle_gasto exact_ops example_env zero_budget_store ''573001234567'' [''12x'', ''comida'']
       = (Inr ''El monto debe ser un numero. Ejemplo: *gasto 50000 alimentacion almuerzo*'', zero_budget_store)
   \<and> handle_ingreso example_env zero_budget_store ''573001234567'' [''12x'', ''comida'']
       = (Inr ''El monto debe ser un numero. Ejemplo: *ingreso 3000000 salario mensual*'', zero_budget_store)"
    by (rule conjI)
  with h1 show ?thesis by (rule conjI)
qed


subsection \<open>What each handler writes\<close>

lemma snd_status_case:
  "snd (case r of Inl err \<Rightarrow> (f err, w') | Inr st \<Rightarrow> (g st, w')) = w'"
  by (cases r) simp_all

lemma handle_gasto_store:
  assumes "2 \<le> length args" and "py_int (args ! 0) = Some a" and "py_int phone = Some p"
  shows "snd (handle_gasto ops e w phone args) =
           add_transaction e w p ''egreso'' a (fst (divisa_of args)) DEFAULT_TIPO_CAMBIO
             (categoria_of args (snd (divisa_of args))) (detalle_of args (snd (divisa_of args)))"
  using assms
  by (simp add: handle_gasto_def Let_def split_beta snd_status_case)

lemma handle_ingreso_store:
  assumes "2 \<le> length args" and "py_int (args ! 0) = Some a" and "py_int phone = Some p"
  shows "snd (handle_ingreso e w phone args) =
           add_transaction e w p ''ingreso'' a (fst (divisa_of args)) DEFAULT_TIPO_CAMBIO
             (categoria_of args (snd (divisa_of args))) (detalle_of args (snd (divisa_of args)))"
  using assms
  by (simp add: handle_ingreso_def Let_def split_beta)

lemma handle_gasto_unchanged:
  "length args < 2 \<or> py_int (args ! 0) = None \<or> py_int phone = None
   \<Longrightarrow> snd (handle_gasto ops e w phone args) = w"
  by (auto simp add: handle_gasto_def Let_def split_beta split: option.splits)

lemma handle_ingreso_unchanged:
  "length args < 2 \<or> py_int (args ! 0) = None \<or> py_int phone = None
   \<Longrightarrow> snd (handle_ingreso e w phone args) = w"
  by (auto simp add: handle_ingreso_def Let_def split_beta split: option.splits)

lemma handle_tope_unchanged:
  "args = [] \<or> py_int (args ! 0) = None \<or> py_int phone = None
   \<Longrightarrow> snd (handle_tope w phone args) = w"
  by (auto simp add: handle_tope_def Let_def split: option.splits)

lemma handle_tope_store:
  "args \<noteq> [] \<Longrightarrow> py_int (args ! 0) = Some a \<Longrightarrow> py_int phone = Some p
   \<Longrightarrow> snd (handle_tope w phone args) = set_budget w p a"
  by (simp add: handle_tope_def)

lemma handle_estado_unchanged: "snd (handle_estado ops e w phone) = w"
  by (simp add: handle_estado_def snd_status_case split: option.splits)

subsection \<open>Recording a transaction\<close>

text \<open>The test \<^verbatim>\<open>args[1].upper() in ("USD", "COP")\<close> compares without regard to case.\<close>

lemma of_char_upper_char:
  "(of_char (upper_char c) :: int) =
     (if 97 \<le> (of_char c :: int) \<and> (of_char c :: int) \<le> 122 then of_char c - 32 else of_char c)"
  by (simp add: upper_char_def Let_def)

lemma of_char_lower_char:
  "(of_char (lower_char c) :: int) =
     (if 65 \<le> (of_char c :: int) \<and> (of_char c :: int) \<le> 90 then of_char c + 32 else of_char c)"
  by (simp add: lower_char_def Let_def)

lemma upper_lower_char: "upper_char c = upper_char d \<longleftrightarrow> lower_char c = lower_char d"
proof -
  have u: "upper_char c = upper_char d
      \<longleftrightarrow> (of_char (upper_char c) :: int) = of_char (upper_char d)"
    by simp
  have l: "lower_char c = lower_char d
      \<longleftrightarrow> (of_char (lower_char c) :: int) = of_char (lower_char d)"
    by simp
  have a: "(if 97 \<le> n \<and> n \<le> 122 then n - 32 else n) = (if 97 \<le> m \<and> m \<le> 122 then m - 32 else m)
      \<longleftrightarrow> (if 65 \<le> n \<and> n \<le> 90 then n + 32 else n) = (if 65 \<le> m \<and> m \<le> 90 then m + 32 else m)"
    for n m :: int
    by presburger
  show ?thesis
    unfolding u l of_char_upper_char of_char_lower_char by (rule a)
qed

lemma upper_eq_iff_caseless: "upper s = upper t \<longleftrightarrow> caseless_eq s t"
proof (induction s arbitrary: t)
  case Nil
  then show ?case by (simp add: upper_def lower_def caseless_eq_def)
next
  case (Cons c s)
  show ?case
  proof (cases t)
    case Nil
    then show ?thesis by (simp add: upper_def lower_def caseless_eq_def)
  next
    case (Cons d t')
    with Cons.IH [of t'] show ?thesis
      by (simp add: upper_def lower_def caseless_eq_def upper_lower_char)
  qed
qed

lemma upper_codes: "upper ''USD'' = ''USD''" "upper ''COP'' = ''COP''"
  by code_simp+

lemma upper_is_USD: "upper s = ''USD'' \<longleftrightarrow> caseless_eq s ''USD''"
  using upper_eq_iff_caseless [of s "''USD''"] by (simp only: upper_codes)

lemma upper_is_COP: "upper s = ''COP'' \<longleftrightarrow> caseless_eq s ''COP''"
  using upper_eq_iff_caseless [of s "''COP''"] by (simp only: upper_codes)

lemma divisa_of_caseless:
  assumes "2 \<le> length args"
  shows "divisa_of args =
           (if caseless_eq (args ! 1) ''USD'' then (''USD'', 2)
            else if caseless_eq (args ! 1) ''COP'' then (''COP'', 2)
            else (''COP'', 1))"
  using assms upper_is_USD [of "args ! 1"] upper_is_COP [of "args ! 1"]
  by (auto simp add: divisa_of_def)

text \<open>C5: for an argument list of at least two tokens whose first token is an integer \<open>a\<close>,
  of any sign, and a sender that is a number: when the second token equals \<^verbatim>\<open>USD\<close> or
  \<^verbatim>\<open>COP\<close> without regard to case, that code is the currency and the cursor \<open>k\<close> is 2,
  otherwise the currency is \<^verbatim>\<open>COP\<close> and the cursor is 1; the category is the token at
  the cursor, or \<^verbatim>\<open>general\<close> when there is none; the detail is the remaining tokens joined
  by single blanks; and the ledger grows by exactly the one transaction with these fields,
  the budget store staying as it was. The same holds for an income.\<close>

theorem amount_and_arguments_recorded:
  assumes "2 \<le> length args" and "py_int (args ! 0) = Some a" and "py_int phone = Some p"
    and "k = (if caseless_eq (args ! 1) ''USD'' \<or> caseless_eq (args ! 1) ''COP'' then 2 else 1)"
    and "cur = (if caseless_eq (args ! 1) ''USD'' then ''USD'' else ''COP'')"
    and "cat = (if k < length args then args ! k else ''general'')"
    and "det = join '' '' (drop (k + 1) args)"
  shows "snd (handle_gasto ops e w phone args) =
           w\<lparr>ledger := ledger w @
              [\<lparr> ID = env_id e, Fecha = strftime_ymd (env_now e), Tipo = ''egreso'',
                 Cantidad = a, Divisa = cur, Tipo_de_Cambio = 3900, Categoria = cat,
                 Detalle = det, Notas = None, Productos = None, Ubicacion = None,
                 Telefono = p, Creado = env_now e \<rparr>]\<rparr>
         \<and> snd (handle_ingreso e w phone args) =
           w\<lparr>ledger := ledger w @
              [\<lparr> ID = env_id e, Fecha = strftime_ymd (env_now e), Tipo = ''ingreso'',
                 Cantidad = a, Divisa = cur, Tipo_de_Cambio = 3900, Categoria = cat,
                 Detalle = det, Notas = None, Productos = None, Ubicacion = None,
                 Telefono = p, Creado = env_now e \<rparr>]\<rparr>"
proof -
  have d: "divisa_of args = (cur, k)"
    using assms(4,5) by (simp add: divisa_of_caseless [OF assms(1)])
  have c: "categoria_of args k = cat"
    using assms(6) by (simp add: categoria_of_def)
  have t: "detalle_of args k = det"
    using assms(7) by (simp add: detalle_of_def)
  show ?thesis
    using d c t
    by (simp add: handle_gasto_store [OF assms(1-3)] handle_ingreso_store [OF assms(1-3)]
        add_transaction_def read_transactions_def save_transactions_def
        DEFAULT_TIPO_CAMBIO_def Let_def)
qed

theorem amount_and_arguments_recorded_witness:
  "(2 \<le> length usd_args \<and> py_int (usd_args ! 0) = Some (- 20)
    \<and> py_int ''573001234567'' = Some 573001234567
    \<and> (2::nat) = (if caseless_eq (usd_args ! 1) ''USD'' \<or> caseless_eq (usd_args ! 1) ''COP''
                   then 2 else 1)
    \<and> ''USD'' = (if caseless_eq (usd_args ! 1) ''USD'' then ''USD'' else ''COP'')
    \<and> ''tecnologia'' = (if 2 < length usd_args then usd_args ! 2 else ''general'')
    \<and> ''hosting anual'' = join '' '' (drop (2 + 1) usd_args))
   \<and> (snd (handle_gasto exact_ops example_env empty_store ''573001234567'' usd_args) =
           empty_store\<lparr>ledger := ledger empty_store @
              [\<lparr> ID = env_id example_env, Fecha = strftime_ymd (env_now example_env),
                 Tipo = ''egreso'', Cantidad = - 20, Divisa = ''USD'', Tipo_de_Cambio = 3900,
                 Categoria = ''tecnologia'', Detalle = ''hosting anual'', Notas = None,
                 Productos = None, Ubicacion = None, Telefono = 573001234567,
                 Creado = env_now example_env \<rparr>]\<rparr>
         \<and> snd (handle_ingreso example_env empty_store ''573001234567'' usd_args) =
           empty_store\<lparr>ledger := ledger empty_store @
              [\<lparr> ID = env_id example_env, Fecha = strftime_ymd (env_now example_env),
                 Tipo = ''ingreso'', Cantidad = - 20, Divisa = ''USD'', Tipo_de_Cambio = 3900,
                 Categoria = ''tecnologia'', Detalle = ''hosting anual'', Notas = None,
                 Productos = None, Ubicacion = None, Telefono = 573001234567,
                 Creado = env_now example_env \<rparr>]\<rparr>)"
proof -
  have h1: "2 \<le> length usd_args" by code_simp
  have h2: "py_int (usd_args ! 0) = Some (- 20)" by code_simp
  have h3: "py_int ''573001234567'' = Some 573001234567" by code_simp
  have h4: "(2::nat) = (if caseless_eq (usd_args ! 1) ''USD'' \<or> caseless_eq (usd_args ! 1) ''COP''
                   then 2 else 1)"
    by code_simp
  have h5: "''USD'' = (if caseless_eq (usd_args ! 1) ''USD'' then ''USD'' else ''COP'')"
    by code_simp
  have h6: "''tecnologia'' = (if 2 < length usd_args then usd_args ! 2 else ''general'')"
    by code_simp
  have h7: "''hosting anual'' = join '' '' (drop (2 + 1) usd_args)"
    by code_simp
  note c = amount_and_arguments_recorded [OF h1 h2 h3 h4 h5 h6 h7,
      of exact_ops example_env empty_store]
  note hs = conjI [OF h1 conjI [OF h2 conjI [OF h3 conjI [OF h4 conjI [OF h5 conjI [OF h6 h7]]]]]]
  from hs c show ?thesis by (rule conjI)
qed

subsection \<open>One reply for each message\<close>



















subsection \<open>Which messages write to which store\<close>

lemma add_transaction_frame:
  "\<exists>tx. add_transaction e w p tipo a cur rate cat det = w\<lparr>ledger := ledger w @ [tx]\<rparr>
        \<and> Tipo tx = tipo \<and> Telefono tx = p"
  unfolding add_transaction_def read_transactions_def save_transactions_def Let_def
  by (intro exI conjI, rule refl) simp_all

text \<open>C9: a message that records a transaction appends exactly one row to the ledger, of
  type expense or income and owned by the sender, and leaves the budgets as they were; a
  message that sets the budget replaces the sender's entry of the budgets and leaves the
  ledger as it was; every other message (help, an unknown command, the status query, the
  budget query, every reply to invalid input) leaves both stores as they were.\<close>

theorem only_three_paths_write:
  "(records_transaction phone body \<longrightarrow>
      (\<exists>tx. snd (handle_message ops e w phone body) = w\<lparr>ledger := ledger w @ [tx]\<rparr>
            \<and> Tipo tx \<in> {''egreso'', ''ingreso''} \<and> py_int phone = Some (Telefono tx)))
   \<and> (sets_budget phone body \<longrightarrow>
      (\<exists>p a. py_int phone = Some p
            \<and> snd (handle_message ops e w phone body)
                = w\<lparr>budgets := AList.update (str_int p) a (budgets w)\<rparr>))
   \<and> (\<not> records_transaction phone body \<and> \<not> sets_budget phone body \<longrightarrow>
      snd (handle_message ops e w phone body) = w)"
proof (cases "split (lower body)")
  case Nil
  then show ?thesis
    by (simp add: records_transaction_def sets_budget_def handle_message_def)
next
  case (Cons cmd args)
  have msg: "handle_message ops e w phone body =
      (if cmd \<in> {''gasto'', ''egreso''} then handle_gasto ops e w phone args
       else if cmd \<in> {''ingreso'', ''entrada''} then handle_ingreso e w phone args
       else if cmd \<in> {''tope'', ''presupuesto''} then handle_tope w phone args
       else if cmd \<in> {''estado'', ''resumen''} then handle_estado ops e w phone
       else if cmd = ''ayuda'' then (Inr msg_ayuda, w)
       else (Inr msg_no_entendi, w))"
    using Cons by (simp add: handle_message_def Let_def)
  have rec_iff: "records_transaction phone body \<longleftrightarrow>
      cmd \<in> {''gasto'', ''egreso'', ''ingreso'', ''entrada''} \<and> 2 \<le> length args
      \<and> py_int (args ! 0) \<noteq> None \<and> py_int phone \<noteq> None"
    using Cons by (simp add: records_transaction_def)
  have set_iff: "sets_budget phone body \<longleftrightarrow>
      cmd \<in> {''tope'', ''presupuesto''} \<and> args \<noteq> []
      \<and> py_int (args ! 0) \<noteq> None \<and> py_int phone \<noteq> None"
    using Cons by (simp add: sets_budget_def)
  have part1: "\<exists>tx. snd (handle_message ops e w phone body) = w\<lparr>ledger := ledger w @ [tx]\<rparr>
            \<and> Tipo tx \<in> {''egreso'', ''ingreso''} \<and> py_int phone = Some (Telefono tx)"
    if r: "records_transaction phone body"
  proof -
    from r rec_iff obtain a p where l: "2 \<le> length args" and a: "py_int (args ! 0) = Some a"
      and p: "py_int phone = Some p" and c: "cmd \<in> {''gasto'', ''egreso'', ''ingreso'', ''entrada''}"
      by auto
    show ?thesis
    proof (cases "cmd \<in> {''gasto'', ''egreso''}")
      case True
      then have "snd (handle_message ops e w phone body) = snd (handle_gasto ops e w phone args)"
        by (simp add: msg)
      then show ?thesis
        using handle_gasto_store [OF l a p, of ops e w]
          add_transaction_frame [of e w p "''egreso''" a]
        by (metis insertI1 p)
    next
      case False
      with c have "snd (handle_message ops e w phone body) = snd (handle_ingreso e w phone args)"
        by (auto simp add: msg)
      then show ?thesis
        using handle_ingreso_store [OF l a p, of e w]
          add_transaction_frame [of e w p "''ingreso''" a]
        by (metis insertI1 insertI2 p)
    qed
  qed
  have part2: "\<exists>p a. py_int phone = Some p
            \<and> snd (handle_message ops e w phone body)
                = w\<lparr>budgets := AList.update (str_int p) a (budgets w)\<rparr>"
    if s: "sets_budget phone body"
  proof -
    from s set_iff obtain a p where l: "args \<noteq> []" and a: "py_int (args ! 0) = Some a"
      and p: "py_int phone = Some p" and c: "cmd \<in> {''tope'', ''presupuesto''}"
      by auto
    from c have "snd (handle_message ops e w phone body) = snd (handle_tope w phone args)"
      by (auto simp add: msg)
    with handle_tope_store [OF l a p, of w] p show ?thesis
      by (auto simp add: set_budget_def)
  qed
  have part3: "snd (handle_message ops e w phone body) = w"
    if n: "\<not> records_transaction phone body" "\<not> sets_budget phone body"
  proof -
    have g: "cmd \<in> {''gasto'', ''egreso''} \<Longrightarrow> snd (handle_gasto ops e w phone args) = w"
      using n(1) rec_iff by (intro handle_gasto_unchanged) auto
    have i: "cmd \<in> {''ingreso'', ''entrada''} \<Longrightarrow> snd (handle_ingreso e w phone args) = w"
      using n(1) rec_iff by (intro handle_ingreso_unchanged) auto
    have t: "cmd \<in> {''tope'', ''presupuesto''} \<Longrightarrow> snd (handle_tope w phone args) = w"
      using n(2) set_iff by (intro handle_tope_unchanged) auto
    show ?thesis
      unfolding msg using g i t by (simp add: handle_estado_unchanged)
  qed
  from part1 part2 part3 show ?thesis by blast
qed

theorem only_three_paths_write_witness:
  "(records_transaction ''573001234567'' ''ingreso 3000000 salario mensual''
    \<and> (\<exists>tx. snd (handle_message exact_ops example_env zero_budget_store ''573001234567''
                   ''ingreso 3000000 salario mensual'')
               = zero_budget_store\<lparr>ledger := ledger zero_budget_store @ [tx]\<rparr>
            \<and> Tipo tx \<in> {''egreso'', ''ingreso''}
            \<and> py_int ''573001234567'' = Some (Telefono tx)))
   \<and> (sets_budget ''573001234567'' ''tope 2000000''
    \<and> (\<exists>p a. py_int ''573001234567'' = Some p
            \<and> snd (handle_message exact_ops example_env zero_budget_store ''573001234567''
                   ''tope 2000000'')
                = zero_budget_store\<lparr>budgets := AList.update (str_int p) a (budgets zero_budget_store)\<rparr>))
   \<and> ((\<not> records_transaction ''573001234567'' ''gasto mucho comida''
       \<and> \<not> sets_budget ''573001234567'' ''gasto mucho comida'')
    \<and> snd (handle_message exact_ops example_env zero_budget_store ''573001234567''
            ''gasto mucho comida'') = zero_budget_store)"
proof -
  note t = only_three_paths_write [where ops = exact_ops and e = example_env
      and w = zero_budget_store and phone = "''573001234567''"]
  have h1: "records_transaction ''573001234567'' ''ingreso 3000000 salario mensual''"
    by code_simp
  have h2: "sets_budget ''573001234567'' ''tope 2000000''"
    by code_simp
  have h3: "\<not> records_transaction ''573001234567'' ''gasto mucho comida''
       \<and> \<not> sets_budget ''573001234567'' ''gasto mucho comida''"
    by code_simp
  note c1 = t [where body = "''ingreso 3000000 salario mensual''", THEN conjunct1, THEN mp, OF h1]
  note c2 = t [where body = "''tope 2000000''", THEN conjunct2, THEN conjunct1, THEN mp, OF h2]
  note c3 = t [where body = "''gasto mucho comida''", THEN conjunct2, THEN conjunct2, THEN mp, OF h3]
  note p1 = conjI [OF h1 c1]
  note p2 = conjI [OF h2 c2]
  note p3 = conjI [OF h3 c3]
  show ?thesis by (rule conjI [OF p1 conjI [OF p2 p3]])
qed


subsection \<open>Monthly expenses\<close>

text \<open>C2, as stated, fails in four ways. With expenses of 5000 in the category \<^verbatim>\<open>null\<close> and
  7000 in \<^verbatim>\<open>comida\<close> (as \<^verbatim>\<open>gasto 5000 null\<close> and \<^verbatim>\<open>gasto 7000 comida\<close> record them) both
  rows match and the total is 12000, yet the dictionary has the entry of \<^verbatim>\<open>comida\<close> alone:
  \<^verbatim>\<open>null\<close> reads back as \<^verbatim>\<open>NaN\<close> and \<^verbatim>\<open>groupby\<close> leaves its row out. Two expenses of
  \<open>2 ^ 62\<close> add up to \<open>- (2 ^ 63)\<close> in an \<^verbatim>\<open>int64\<close> column. One expense of \<open>10 ^ 20\<close>
  makes \<^verbatim>\<open>astype(int)\<close> raise. And for the month 0 the function takes the month of the
  clock, November here, where no row is dated in a month 0.\<close>

theorem aggregation_not_the_plain_sum:
  "filter (\<lambda>r. Telefono r = 573001234567 \<and> Tipo r = ''egreso''
               \<and> d_year (Fecha r) = 2026 \<and> d_month (Fecha r) = 11) (ledger null_category_store)
     = [ledger_row 573001234567 2026 11 ''egreso'' 5000 ''COP'' ''null'',
        ledger_row 573001234567 2026 11 ''egreso'' 7000 ''COP'' ''comida'']
   \<and> get_monthly_expenses_cop (env_now example_env) null_category_store 573001234567
        (Some 2026) (Some 11)
     = Inr (12000, [(''comida'', 7000)])
   \<and> get_monthly_expenses_cop (env_now example_env) wrapping_store 573001234567
        (Some 2026) (Some 11)
     = Inr (- 9223372036854775808, [(''comida'', - 9223372036854775808)])
   \<and> get_monthly_expenses_cop (env_now example_env) big_amount_store 573001234567
        (Some 2026) (Some 11)
     = Inl OverflowError
   \<and> get_monthly_expenses_cop (env_now example_env) mixed_store 573001234567
        (Some 2026) (Some 0)
     = Inr (131000, [(''alimentacion'', 51000), (''tecnologia'', 80000)])"
  by code_simp

lemma map_of_tabulate:
  "map_of (map (\<lambda>k. (k, f k)) ks) c = (if c \<in> set ks then Some (f c) else None)"
  by (induction ks) auto

lemma astype_items_Int64: "astype_items Int64 items = Inr items"
  by (induction items) (auto simp add: astype_int_def)

lemma infer_dtype_Int64:
  assumes "list_all in_int64 vs"
  shows "infer_dtype vs = Int64"
proof -
  have "\<not> list_ex (\<lambda>v. UINT64_MAX < v \<or> v < INT64_MIN) vs"
    using assms
    by (induction vs)
      (auto simp add: in_int64_def INT64_MAX_def INT64_MIN_def UINT64_MAX_def)
  moreover have "\<not> list_ex (\<lambda>v. INT64_MAX < v) vs"
    using assms by (induction vs) (auto simp add: in_int64_def)
  ultimately show ?thesis by (simp add: infer_dtype_def)
qed

lemma wrap_int64_id:
  assumes "in_int64 x"
  shows "wrap_int64 x = x"
  using assms by (simp add: wrap_int64_def in_int64_def INT64_MAX_def INT64_MIN_def)

text \<open>C2, amended: for every ledger, sender, and year and month other than 0 (for which
  \<^verbatim>\<open>year or now.year\<close> takes the clock's), the aggregation considers exactly the rows of
  the sender, of type \<^verbatim>\<open>egreso\<close>, dated in that year and month. A row counts for its amount
  times the rate stored on it when its currency is \<^verbatim>\<open>USD\<close>, and for its amount otherwise.
  When these converted amounts, their sum and the sum of each category fit \<^verbatim>\<open>int64\<close>, and
  no category of these rows is a text that reads back as missing, the total is the sum
  over these rows, and the dictionary has one entry for each category of these rows and
  no other, holding the sum over the rows of the category. Without such a row the result
  is \<open>(0, [])\<close>.\<close>

theorem monthly_expenses_aggregation:
  assumes "year \<noteq> 0" and "month \<noteq> 0"
    and m: "matching = filter (\<lambda>r. Telefono r = phone \<and> Tipo r = ''egreso''
                           \<and> d_year (Fecha r) = year \<and> d_month (Fecha r) = month) (ledger w)"
    and keyed: "list_all (\<lambda>r. \<not> is_na (Categoria r)) matching"
    and vals: "list_all (\<lambda>r. in_int64 (Cantidad_COP r)) matching"
    and fits: "in_int64 (sum_list (map Cantidad_COP matching))"
    and groups: "list_all (\<lambda>c. in_int64 (sum_list (map Cantidad_COP
                     (filter (\<lambda>r. Categoria r = c) matching)))) (map Categoria matching)"
    and res: "get_monthly_expenses_cop now w phone (Some year) (Some month) = result"
  shows "(\<forall>r. Cantidad_COP r =
            (if Divisa r = ''USD'' then Cantidad r * Tipo_de_Cambio r else Cantidad r))
       \<and> (\<exists>by_cat. result = Inr (sum_list (map Cantidad_COP matching), by_cat)
            \<and> distinct (map fst by_cat)
            \<and> (\<forall>c. map_of by_cat c =
                 (if c \<in> Categoria ` set matching
                  then Some (sum_list (map Cantidad_COP
                               (filter (\<lambda>r. Categoria r = c) matching)))
                  else None)))
       \<and> (matching = [] \<longrightarrow> result = Inr (0, []))"
proof (cases "matching = []")
  case True
  with assms show ?thesis
    by (auto simp add: get_monthly_expenses_cop_def py_or_def read_transactions_def
        Cantidad_COP_def Let_def split: if_splits)
next
  case False
  then have l: "ledger w \<noteq> []" using m by auto
  have k: "filter (\<lambda>row. \<not> is_na (Categoria row)) matching = matching"
    using keyed by (induction matching) auto
  have dt: "infer_dtype (map Cantidad_COP matching) = Int64"
    using vals by (intro infer_dtype_Int64) (simp add: list_all_iff)
  have tot: "series_sum Int64 (map Cantidad_COP matching) = sum_list (map Cantidad_COP matching)"
    using fits by (simp add: series_sum_def wrap_int64_id)
  let ?f = "\<lambda>c. sum_list (map Cantidad_COP (filter (\<lambda>row. Categoria row = c) matching))"
  have grp: "map (\<lambda>c. (c, series_sum Int64 (map Cantidad_COP
                          (filter (\<lambda>row. Categoria row = c) matching)))) cs
      = map (\<lambda>c. (c, ?f c)) cs" if "set cs \<subseteq> set (map Categoria matching)" for cs
  proof (rule map_cong [OF refl])
    fix c assume "c \<in> set cs"
    with that have "c \<in> set (map Categoria matching)" by blast
    with groups have "in_int64 (?f c)" by (auto simp add: list_all_iff)
    then show "(c, series_sum Int64 (map Cantidad_COP
                     (filter (\<lambda>row. Categoria row = c) matching))) = (c, ?f c)"
      by (simp add: series_sum_def wrap_int64_id)
  qed
  let ?by = "map (\<lambda>c. (c, ?f c)) (sort (remdups (map Categoria matching)))"
  have r: "result = Inr (sum_list (map Cantidad_COP matching), ?by)"
    using False assms(1,2) l res [symmetric] m [symmetric]
    by (simp add: get_monthly_expenses_cop_def py_or_def read_transactions_def Let_def
        k dt tot grp astype_items_Int64)
  have d: "distinct (map fst ?by)"
    by (simp add: comp_def)
  have mp: "map_of ?by c =
            (if c \<in> Categoria ` set matching then Some (?f c) else None)" for c
    by (simp add: map_of_tabulate)
  have ex: "\<exists>by_cat. result = Inr (sum_list (map Cantidad_COP matching), by_cat)
            \<and> distinct (map fst by_cat)
            \<and> (\<forall>c. map_of by_cat c =
                 (if c \<in> Categoria ` set matching then Some (?f c) else None))"
    using r d mp by blast
  with False show ?thesis
    by (simp add: Cantidad_COP_def)
qed

theorem monthly_expenses_aggregation_witness:
  "(((2026::int) \<noteq> 0 \<and> (11::int) \<noteq> 0
     \<and> november_expenses
        = filter (\<lambda>r. Telefono r = 573001234567 \<and> Tipo r = ''egreso''
                      \<and> d_year (Fecha r) = 2026 \<and> d_month (Fecha r) = 11) (ledger mixed_store)
     \<and> list_all (\<lambda>r. \<not> is_na (Categoria r)) november_expenses
     \<and> list_all (\<lambda>r. in_int64 (Cantidad_COP r)) november_expenses
     \<and> in_int64 (sum_list (map Cantidad_COP november_expenses))
     \<and> list_all (\<lambda>c. in_int64 (sum_list (map Cantidad_COP
                     (filter (\<lambda>r. Categoria r = c) november_expenses))))
          (map Categoria november_expenses)
     \<and> get_monthly_expenses_cop (env_now example_env) mixed_store 573001234567
          (Some 2026) (Some 11)
        = Inr (131000, [(''alimentacion'', 51000), (''tecnologia'', 80000)]))
    \<and> (\<exists>by_cat. (Inr (131000, [(''alimentacion'', 51000), (''tecnologia'', 80000)])
                   :: error + int \<times> (string \<times> int) list)
                  = Inr (sum_list (map Cantidad_COP november_expenses), by_cat)
            \<and> distinct (map fst by_cat)
            \<and> (\<forall>c. map_of by_cat c =
                 (if c \<in> Categoria ` set november_expenses
                  then Some (sum_list (map Cantidad_COP
                               (filter (\<lambda>r. Categoria r = c) november_expenses)))
                  else None))))
   \<and> (((2026::int) \<noteq> 0 \<and> (11::int) \<noteq> 0
     \<and> [] = filter (\<lambda>r. Telefono r = 573001234567 \<and> Tipo r = ''egreso''
                      \<and> d_year (Fecha r) = 2026 \<and> d_month (Fecha r) = 11) (ledger empty_store)
     \<and> get_monthly_expenses_cop (env_now example_env) empty_store 573001234567
          (Some 2026) (Some 11)
        = Inr (0, []))
    \<and> (Inr (0, []) :: error + int \<times> (string \<times> int) list) = Inr (0, []))"
proof -
  have y: "(2026::int) \<noteq> 0" and mo: "(11::int) \<noteq> 0" by simp_all
  have f1: "november_expenses
        = filter (\<lambda>r. Telefono r = 573001234567 \<and> Tipo r = ''egreso''
                      \<and> d_year (Fecha r) = 2026 \<and> d_month (Fecha r) = 11) (ledger mixed_store)"
    by code_simp
  have k1: "list_all (\<lambda>r. \<not> is_na (Categoria r)) november_expenses" by code_simp
  have v1: "list_all (\<lambda>r. in_int64 (Cantidad_COP r)) november_expenses" by code_simp
  have s1: "in_int64 (sum_list (map Cantidad_COP november_expenses))" by code_simp
  have c1: "list_all (\<lambda>c. in_int64 (sum_list (map Cantidad_COP
                     (filter (\<lambda>r. Categoria r = c) november_expenses))))
          (map Categoria november_expenses)" by code_simp
  have g1: "get_monthly_expenses_cop (env_now example_env) mixed_store 573001234567
          (Some 2026) (Some 11)
        = Inr (131000, [(''alimentacion'', 51000), (''tecnologia'', 80000)])"
    by code_simp
  have f2: "[] = filter (\<lambda>r. Telefono r = 573001234567 \<and> Tipo r = ''egreso''
                      \<and> d_year (Fecha r) = 2026 \<and> d_month (Fecha r) = 11) (ledger empty_store)"
    by code_simp
  have k2: "list_all (\<lambda>r. \<not> is_na (Categoria r)) []" by simp
  have v2: "list_all (\<lambda>r. in_int64 (Cantidad_COP r)) []" by simp
  have s2: "in_int64 (sum_list (map Cantidad_COP []))" by code_simp
  have c2: "list_all (\<lambda>c. in_int64 (sum_list (map Cantidad_COP
                     (filter (\<lambda>r. Categoria r = c) [])))) (map Categoria [])" by simp
  have g2: "get_monthly_expenses_cop (env_now example_env) empty_store 573001234567
          (Some 2026) (Some 11)
        = Inr (0, [])"
    by code_simp
  note r1 = monthly_expenses_aggregation [OF y mo f1 k1 v1 s1 c1 g1,
      THEN conjunct2, THEN conjunct1]
  note r2 = monthly_expenses_aggregation [OF y mo f2 k2 v2 s2 c2 g2,
      THEN conjunct2, THEN conjunct2, THEN mp, OF refl]
  note h1 = conjI [OF y conjI [OF mo conjI [OF f1 conjI [OF k1 conjI [OF v1
              conjI [OF s1 conjI [OF c1 g1]]]]]]]
  note h2 = conjI [OF y conjI [OF mo conjI [OF f2 g2]]]
  show ?thesis by (rule conjI [OF conjI [OF h1 r1] conjI [OF h2 r2]])
qed

subsection \<open>Percentage and remaining amount\<close>

lemma get_budget_status_eq:
  assumes "get_budget w p = Some b"
    and "get_monthly_expenses_cop now w p None None = Inr (s, cats)"
  shows "get_budget_status ops now w p =
           (if 0 < b then
              (case int_truediv ops s b of
                 None \<Rightarrow> Inl OverflowError
               | Some q \<Rightarrow> Inr (With_Budget b s
                                 (PyFloat (float_round ops (float_mul ops q 100) 1)) (b - s) cats))
            else Inr (With_Budget b s (PyInt 0) (b - s) cats))"
  using assms
  by (simp add: get_budget_status_def py_truediv_def split: option.splits)

text \<open>C3, as stated, fails for a stored budget below zero: with the budget -100 and 50
  spent, \<^verbatim>\<open>get_budget_status\<close> reports the percentage 0, where
  \<^verbatim>\<open>round(spent/budget*100, 1)\<close> is -50.0; the guard is \<^verbatim>\<open>budget > 0\<close>, not
  \<^verbatim>\<open>budget != 0\<close>.\<close>

theorem negative_budget_percentage:
  "get_budget_status exact_ops (env_now example_env) negative_budget_store 573001234567
     = Inr (With_Budget (- 100) 50 (PyInt 0) (- 150) [(''alimentacion'', 50)])
   \<and> spec_percentage exact_ops 50 (- 100) = Some (PyFloat (- 50))"
  by code_simp

text \<open>C3, amended: for every stored budget \<open>b\<close> and every spent total \<open>s\<close>,
  \<^verbatim>\<open>get_budget_status\<close> reports the remaining amount \<open>b - s\<close>, which may be negative. When
  \<open>b \<le> 0\<close>, zero or negative, it does not divide, does not fail and reports the
  percentage 0. When \<open>b > 0\<close> it reports the percentage \<^verbatim>\<open>round(s/b*100, 1)\<close>, where \<open>q\<close>
  is the float \<open>s / b\<close>. In no case does a division by zero leave the function.\<close>

theorem budget_status_percentage_and_remaining:
  assumes "get_budget w p = Some b"
    and "get_monthly_expenses_cop now w p None None = Inr (s, cats)"
  shows "get_budget_status ops now w p \<noteq> Inl ZeroDivisionError
       \<and> (b \<le> 0 \<longrightarrow>
            get_budget_status ops now w p = Inr (With_Budget b s (PyInt 0) (b - s) cats))
       \<and> (0 < b \<and> int_truediv ops s b = Some q \<longrightarrow>
            get_budget_status ops now w p =
              Inr (With_Budget b s (PyFloat (float_round ops (float_mul ops q 100) 1))
                     (b - s) cats))"
  by (auto simp add: get_budget_status_eq [OF assms] split: option.splits)

theorem budget_status_percentage_and_remaining_witness:
  "((get_budget zero_budget_store 573001234567 = Some 0
     \<and> get_monthly_expenses_cop (env_now example_env) zero_budget_store 573001234567 None None
         = Inr (0, [])
     \<and> (0::int) \<le> 0)
    \<and> get_budget_status exact_ops (env_now example_env) zero_budget_store 573001234567
        = Inr (With_Budget 0 0 (PyInt 0) (0 - 0) []))
   \<and> ((get_budget negative_budget_store 573001234567 = Some (- 100)
     \<and> get_monthly_expenses_cop (env_now example_env) negative_budget_store 573001234567
           None None
         = Inr (50, [(''alimentacion'', 50)])
     \<and> (- 100 :: int) \<le> 0)
    \<and> get_budget_status exact_ops (env_now example_env) negative_budget_store 573001234567
        = Inr (With_Budget (- 100) 50 (PyInt 0) (- 100 - 50) [(''alimentacion'', 50)]))
   \<and> ((get_budget over_budget_store 573001234567 = Some 2000000
     \<and> get_monthly_expenses_cop (env_now example_env) over_budget_store 573001234567 None None
         = Inr (2500000, [(''alimentacion'', 2500000)])
     \<and> (0::int) < 2000000 \<and> int_truediv exact_ops 2500000 2000000 = Some (5 / 4))
    \<and> get_budget_status exact_ops (env_now example_env) over_budget_store 573001234567
        = Inr (With_Budget 2000000 2500000
                 (PyFloat (float_round exact_ops (float_mul exact_ops (5 / 4) 100) 1))
                 (2000000 - 2500000) [(''alimentacion'', 2500000)]))"
proof -
  have a1: "get_budget zero_budget_store 573001234567 = Some 0" by code_simp
  have a2: "get_monthly_expenses_cop (env_now example_env) zero_budget_store 573001234567 None None
         = Inr (0, [])" by code_simp
  have a3: "(0::int) \<le> 0" by simp
  have n1: "get_budget negative_budget_store 573001234567 = Some (- 100)" by code_simp
  have n2: "get_monthly_expenses_cop (env_now example_env) negative_budget_store 573001234567
           None None
         = Inr (50, [(''alimentacion'', 50)])" by code_simp
  have n3: "(- 100 :: int) \<le> 0" by simp
  have b1: "get_budget over_budget_store 573001234567 = Some 2000000" by code_simp
  have b2: "get_monthly_expenses_cop (env_now example_env) over_budget_store 573001234567 None None
         = Inr (2500000, [(''alimentacion'', 2500000)])" by code_simp
  have b3: "(0::int) < 2000000 \<and> int_truediv exact_ops 2500000 2000000 = Some (5 / 4)"
    by code_simp
  note ra = budget_status_percentage_and_remaining [OF a1 a2, where ops = exact_ops,
      THEN conjunct2, THEN conjunct1, THEN mp, OF a3]
  note rn = budget_status_percentage_and_remaining [OF n1 n2, where ops = exact_ops,
      THEN conjunct2, THEN conjunct1, THEN mp, OF n3]
  note rb = budget_status_percentage_and_remaining [OF b1 b2, where ops = exact_ops,
      THEN conjunct2, THEN conjunct2, THEN mp, OF b3]
  note pa = conjI [OF conjI [OF a1 conjI [OF a2 a3]] ra]
  note pn = conjI [OF conjI [OF n1 conjI [OF n2 n3]] rn]
  note pb = conjI [OF conjI [OF b1 conjI [OF b2 b3]] rb]
  show ?thesis by (rule conjI [OF pa conjI [OF pn pb]])
qed

subsection \<open>The report\<close>

lemma fmt_commas_500000: "fmt_commas 500000 = ''500,000''"
  by code_simp

text \<open>C7: in the report of a status with a budget, the line after the spent line reads
  \<^verbatim>\<open>Disponible\<close> with the remaining amount when that is not negative, and
  \<^verbatim>\<open>EXCEDIDO por\<close> with its absolute value when it is negative. With the budget 2,000,000
  and 2,500,000 spent the status has the remaining amount -500000 and the report has the
  line \<^verbatim>\<open>EXCEDIDO por: $500,000 COP\<close>.\<close>

theorem available_or_exceeded_line:
  "(has_budget st \<and> 0 \<le> st_remaining st \<longrightarrow>
      report_lines ops now st =
        [header_line now,
         ''Tope mensual: $'' @ fmt_commas (st_budget st) @ '' COP'',
         ''Gastado: $'' @ fmt_commas (st_spent_cop st) @ '' COP (''
            @ py_str ops (st_percentage st) @ ''%)'',
         ''Disponible: $'' @ fmt_commas (st_remaining st) @ '' COP'']
        @ category_lines st)
   \<and> (has_budget st \<and> st_remaining st < 0 \<longrightarrow>
      report_lines ops now st =
        [header_line now,
         ''Tope mensual: $'' @ fmt_commas (st_budget st) @ '' COP'',
         ''Gastado: $'' @ fmt_commas (st_spent_cop st) @ '' COP (''
            @ py_str ops (st_percentage st) @ ''%)'',
         ''EXCEDIDO por: $'' @ fmt_commas \<bar>st_remaining st\<bar> @ '' COP'']
        @ category_lines st)
   \<and> format_budget_status ops now st = join ''\<newline>'' (report_lines ops now st)
   \<and> (get_budget w p = Some 2000000
       \<and> get_monthly_expenses_cop now w p None None = Inr (2500000, cats)
       \<and> get_budget_status ops now w p = Inr st
      \<longrightarrow> st_remaining st = - 500000
          \<and> report_lines ops now st ! 3 = ''EXCEDIDO por: $500,000 COP'')"
proof -
  have ex: "st_remaining st = - 500000
          \<and> report_lines ops now st ! 3 = ''EXCEDIDO por: $500,000 COP''"
    if b: "get_budget w p = Some 2000000"
      and m: "get_monthly_expenses_cop now w p None None = Inr (2500000, cats)"
      and r: "get_budget_status ops now w p = Inr st"
  proof -
    from r obtain pct where st: "st = With_Budget 2000000 2500000 pct (2000000 - 2500000) cats"
      unfolding get_budget_status_eq [OF b m] by (auto split: option.splits)
    show ?thesis
      by (simp add: st report_lines_def budget_lines_def has_budget_def fmt_commas_500000)
  qed
  have av: "report_lines ops now st =
        [header_line now,
         ''Tope mensual: $'' @ fmt_commas (st_budget st) @ '' COP'',
         ''Gastado: $'' @ fmt_commas (st_spent_cop st) @ '' COP (''
            @ py_str ops (st_percentage st) @ ''%)'',
         ''Disponible: $'' @ fmt_commas (st_remaining st) @ '' COP'']
        @ category_lines st"
    if "has_budget st" "0 \<le> st_remaining st"
    using that by (simp add: report_lines_def budget_lines_def)
  have exc: "report_lines ops now st =
        [header_line now,
         ''Tope mensual: $'' @ fmt_commas (st_budget st) @ '' COP'',
         ''Gastado: $'' @ fmt_commas (st_spent_cop st) @ '' COP (''
            @ py_str ops (st_percentage st) @ ''%)'',
         ''EXCEDIDO por: $'' @ fmt_commas \<bar>st_remaining st\<bar> @ '' COP'']
        @ category_lines st"
    if "has_budget st" "st_remaining st < 0"
    using that by (simp add: report_lines_def budget_lines_def)
  have fm: "format_budget_status ops now st = join ''\<newline>'' (report_lines ops now st)"
    by (simp add: format_budget_status_def)
  from ex av exc fm show ?thesis by blast
qed

theorem available_or_exceeded_line_witness:
  "((has_budget within_budget_status \<and> 0 \<le> st_remaining within_budget_status)
    \<and> report_lines exact_ops (env_now example_env) within_budget_status =
        [header_line (env_now example_env),
         ''Tope mensual: $'' @ fmt_commas (st_budget within_budget_status) @ '' COP'',
         ''Gastado: $'' @ fmt_commas (st_spent_cop within_budget_status) @ '' COP (''
            @ py_str exact_ops (st_percentage within_budget_status) @ ''%)'',
         ''Disponible: $'' @ fmt_commas (st_remaining within_budget_status) @ '' COP'']
        @ category_lines within_budget_status)
   \<and> ((has_budget over_budget_status \<and> st_remaining over_budget_status < 0)
    \<and> report_lines exact_ops (env_now example_env) over_budget_status =
        [header_line (env_now example_env),
         ''Tope mensual: $'' @ fmt_commas (st_budget over_budget_status) @ '' COP'',
         ''Gastado: $'' @ fmt_commas (st_spent_cop over_budget_status) @ '' COP (''
            @ py_str exact_ops (st_percentage over_budget_status) @ ''%)'',
         ''EXCEDIDO por: $'' @ fmt_commas \<bar>st_remaining over_budget_status\<bar> @ '' COP'']
        @ category_lines over_budget_status)
   \<and> ((get_budget over_budget_store 573001234567 = Some 2000000
       \<and> get_monthly_expenses_cop (env_now example_env) over_budget_store 573001234567
               None None = Inr (2500000, [(''alimentacion'', 2500000)])
       \<and> get_budget_status exact_ops (env_now example_env) over_budget_store 573001234567
           = Inr over_budget_status)
    \<and> (st_remaining over_budget_status = - 500000
        \<and> report_lines exact_ops (env_now example_env) over_budget_status ! 3
            = ''EXCEDIDO por: $500,000 COP''))"
proof -
  note t = available_or_exceeded_line [where ops = exact_ops and now = "env_now example_env"]
  have h1: "has_budget within_budget_status \<and> 0 \<le> st_remaining within_budget_status"
    by code_simp
  have h2: "has_budget over_budget_status \<and> st_remaining over_budget_status < 0"
    by code_simp
  have h3: "get_budget over_budget_store 573001234567 = Some 2000000
       \<and> get_monthly_expenses_cop (env_now example_env) over_budget_store 573001234567
               None None = Inr (2500000, [(''alimentacion'', 2500000)])
       \<and> get_budget_status exact_ops (env_now example_env) over_budget_store 573001234567
           = Inr over_budget_status"
    by code_simp
  note c1 = t [where st = within_budget_status, THEN conjunct1, THEN mp, OF h1]
  note c2 = t [where st = over_budget_status, THEN conjunct2, THEN conjunct1, THEN mp, OF h2]
  note c3 = t [where st = over_budget_status and w = over_budget_store and p = 573001234567
      and cats = "[(''alimentacion'', 2500000)]",
      THEN conjunct2, THEN conjunct2, THEN conjunct2, THEN mp, OF h3]
  show ?thesis
    by (rule conjI [OF conjI [OF h1 c1] conjI [OF conjI [OF h2 c2] conjI [OF h3 c3]]])
qed

text \<open>The whole report of that status.\<close>

lemma over_budget_report:
  "format_budget_status exact_ops (env_now example_env) over_budget_status =
     ''Estado del presupuesto - Noviembre 2026\<newline>''
     @ ''Tope mensual: $2,000,000 COP\<newline>''
     @ ''Gastado: $2,500,000 COP (125.0%)\<newline>''
     @ ''EXCEDIDO por: $500,000 COP\<newline>''
     @ ''\<newline>''
     @ ''Por categoria:\<newline>''
     @ ''  - alimentacion: $2,500,000 COP''"
  by code_simp

lemma sorted_map_fst:
  fixes xs :: "(string \<times> int) list"
  shows "sorted xs \<Longrightarrow> sorted (map fst xs)"
  by (induction xs) (auto simp add: less_eq_prod_def)

text \<open>C8: the category block is present exactly when the dictionary of categories is not
  empty; it then consists of a blank line, the heading and one line for each item, the
  items in ascending order of the category label. The block closes the report. For the
  categories z, a, m the lines come in the order a, m, z.\<close>

theorem category_block_sorted:
  "(category_lines st \<noteq> [] \<longleftrightarrow> st_by_category st \<noteq> [])
   \<and> (st_by_category st \<noteq> [] \<longrightarrow>
        (\<exists>items. mset items = mset (st_by_category st) \<and> sorted (map fst items)
           \<and> category_lines st =
               ['''', ''Por categoria:'']
               @ map (\<lambda>(cat, amount). ''  - '' @ cat @ '': $'' @ fmt_commas amount @ '' COP'')
                   items))
   \<and> report_lines ops now st = header_line now # budget_lines ops st @ category_lines st
   \<and> (st_by_category st = [(''z'', x), (''a'', y), (''m'', v)] \<longrightarrow>
        category_lines st =
          ['''', ''Por categoria:'',
           ''  - a: $'' @ fmt_commas y @ '' COP'',
           ''  - m: $'' @ fmt_commas v @ '' COP'',
           ''  - z: $'' @ fmt_commas x @ '' COP''])"
proof -
  have p1: "category_lines st \<noteq> [] \<longleftrightarrow> st_by_category st \<noteq> []"
    by (simp add: category_lines_def)
  have p2: "\<exists>items. mset items = mset (st_by_category st) \<and> sorted (map fst items)
           \<and> category_lines st =
               ['''', ''Por categoria:'']
               @ map (\<lambda>(cat, amount). ''  - '' @ cat @ '': $'' @ fmt_commas amount @ '' COP'')
                   items"
    if "st_by_category st \<noteq> []"
  proof (intro exI conjI)
    show "mset (sort (st_by_category st)) = mset (st_by_category st)" by simp
    show "sorted (map fst (sort (st_by_category st)))" by (simp add: sorted_map_fst)
    show "category_lines st =
               ['''', ''Por categoria:'']
               @ map (\<lambda>(cat, amount). ''  - '' @ cat @ '': $'' @ fmt_commas amount @ '' COP'')
                   (sort (st_by_category st))"
      using that by (simp add: category_lines_def)
  qed
  have p3: "report_lines ops now st = header_line now # budget_lines ops st @ category_lines st"
    by (simp add: report_lines_def)
  have p4: "category_lines st =
          ['''', ''Por categoria:'',
           ''  - a: $'' @ fmt_commas y @ '' COP'',
           ''  - m: $'' @ fmt_commas v @ '' COP'',
           ''  - z: $'' @ fmt_commas x @ '' COP'']"
    if "st_by_category st = [(''z'', x), (''a'', y), (''m'', v)]"
    using that by (simp add: category_lines_def)
  from p1 p2 p3 p4 show ?thesis by blast
qed

theorem category_block_sorted_witness:
  "(st_by_category three_category_status \<noteq> []
    \<and> (\<exists>items. mset items = mset (st_by_category three_category_status)
           \<and> sorted (map fst items)
           \<and> category_lines three_category_status =
               ['''', ''Por categoria:'']
               @ map (\<lambda>(cat, amount). ''  - '' @ cat @ '': $'' @ fmt_commas amount @ '' COP'')
                   items))
   \<and> (st_by_category three_category_status = [(''z'', 100), (''a'', 200), (''m'', 300)]
    \<and> category_lines three_category_status =
          ['''', ''Por categoria:'',
           ''  - a: $'' @ fmt_commas 200 @ '' COP'',
           ''  - m: $'' @ fmt_commas 300 @ '' COP'',
           ''  - z: $'' @ fmt_commas 100 @ '' COP''])"
proof -
  note t = category_block_sorted [where st = three_category_status and ops = exact_ops
      and now = "env_now example_env"]
  have h1: "st_by_category three_category_status \<noteq> []"
    by (simp add: three_category_status_def)
  have h2: "st_by_category three_category_status = [(''z'', 100), (''a'', 200), (''m'', 300)]"
    by (simp add: three_category_status_def)
  note c1 = t [THEN conjunct2, THEN conjunct1, THEN mp, OF h1]
  note c2 = t [THEN conjunct2, THEN conjunct2, THEN conjunct2, THEN mp, OF h2]
  show ?thesis
    by (rule conjI [OF conjI [OF h1 c1] conjI [OF h2 c2]])
qed

end
